theory Spec2Isabelle
  imports Complex_Main
begin

section \<open>pqConsole: the foreign predicates of \<^verbatim>\<open>pqConsole.cpp\<close>\<close>

text \<open>
  A shallow embedding of \<^verbatim>\<open>src/pqConsole.cpp\<close>: the console locator
  (\<^verbatim>\<open>search_widget\<close>, \<^verbatim>\<open>console_by_thread\<close>, \<^verbatim>\<open>console_peek_first\<close>), the property bridge
  (\<^verbatim>\<open>unify\<close>, \<^verbatim>\<open>console_settings\<close>), the menu bridge (\<^verbatim>\<open>win_insert_menu\<close>,
  \<^verbatim>\<open>win_insert_menu_item\<close>, \<^verbatim>\<open>add_action\<close>) and the remaining predicates.

  Every predicate takes the state of the GUI and the calling thread's identifier
  (\<^verbatim>\<open>PL_thread_self()\<close>) and returns its outcome together with the state it leaves.
  A closure handed to \<^verbatim>\<open>exec_func\<close> is run on the spot: the model is sequential, the
  state a predicate returns is the state once the GUI thread has run the closure.
\<close>

subsection \<open>Prolog terms and the conversions of the C++ interface\<close>

text \<open>
  A term as the foreign interface sees it; the constructors are the tags \<^verbatim>\<open>v.type()\<close>
  answers. An unbound variable carries no identity: two options of one list never share
  a variable in this model. A float is the real number it denotes (no arithmetic is done
  on it).
\<close>

datatype plterm =
    PL_VARIABLE
  | PL_ATOM string
  | PL_INTEGER int
  | PL_FLOAT real
  | PL_STRING string
  | PL_TERM string "plterm list"

text \<open>
  What a predicate can end with other than \<^verbatim>\<open>TRUE\<close> or \<^verbatim>\<open>FALSE\<close>: a thrown
  \<^verbatim>\<open>PlException\<close>, the \<^verbatim>\<open>PlTypeError\<close> a failed conversion of a \<^verbatim>\<open>PlTerm\<close> throws, the abort of
  a failed \<^verbatim>\<open>Q_ASSERT\<close>, the dereference of a null pointer, and an integer division by
  zero.
\<close>

datatype failure =
    PlException plterm
  | PlTypeError string plterm
  | AssertFailure string
  | NullPointer string
  | DivideByZero

type_synonym 'a result = "failure + 'a"

text \<open>\<^verbatim>\<open>PlTerm::name()\<close> and \<^verbatim>\<open>PlTerm::arity()\<close>: defined on atoms and compounds only.\<close>

fun name_arity :: "plterm \<Rightarrow> (string \<times> nat) option" where
  "name_arity (PL_ATOM a) = Some (a, 0)"
| "name_arity (PL_TERM f args) = Some (f, length args)"
| "name_arity _ = None"

definition arity :: "plterm \<Rightarrow> nat result" where
  "arity t = (case name_arity t of
                None \<Rightarrow> Inl (PlTypeError ''compound'' t)
              | Some (n, a) \<Rightarrow> Inr a)"

definition name :: "plterm \<Rightarrow> string result" where
  "name t = (case name_arity t of
               None \<Rightarrow> Inl (PlTypeError ''compound'' t)
             | Some (n, a) \<Rightarrow> Inr n)"

text \<open>\<^verbatim>\<open>opt[i]\<close>, the i-th argument counted from 1. Every use in the file is guarded by a
  test of the arity; outside a compound's arguments the interface throws.\<close>

fun arg :: "plterm \<Rightarrow> nat \<Rightarrow> plterm result" where
  "arg (PL_TERM f args) i =
     (if 1 \<le> i \<and> i \<le> length args then Inr (args ! (i - 1))
      else Inl (PlTypeError ''compound'' (PL_TERM f args)))"
| "arg t i = Inl (PlTypeError ''compound'' t)"

text \<open>
  \<^verbatim>\<open>PL_get_long\<close> and \<^verbatim>\<open>PL_get_integer\<close>: an integer that fits the C type, or a float
  that is a whole number that fits. \<^verbatim>\<open>long\<close> has 64 bits, \<^verbatim>\<open>int\<close> and \<^verbatim>\<open>qint32\<close> have 32.
\<close>

definition fits :: "nat \<Rightarrow> int \<Rightarrow> bool" where
  "fits w i = (- (2 ^ (w - 1)) \<le> i \<and> i < 2 ^ (w - 1))"

fun PL_get_signed :: "nat \<Rightarrow> plterm \<Rightarrow> int option" where
  "PL_get_signed w (PL_INTEGER i) = (if fits w i then Some i else None)"
| "PL_get_signed w (PL_FLOAT r) =
     (if r = of_int \<lfloor>r\<rfloor> \<and> fits w \<lfloor>r\<rfloor> then Some \<lfloor>r\<rfloor> else None)"
| "PL_get_signed w _ = None"

text \<open>\<^verbatim>\<open>PlTerm::operator long()\<close> and \<^verbatim>\<open>PlTerm::operator int()\<close>.\<close>

definition to_long :: "plterm \<Rightarrow> int result" where
  "to_long t = (case PL_get_signed 64 t of
                  Some i \<Rightarrow> Inr i
                | None \<Rightarrow> Inl (PlTypeError ''integer'' t))"

definition to_qint32 :: "plterm \<Rightarrow> int result" where
  "to_qint32 t = (case PL_get_signed 32 t of
                    Some i \<Rightarrow> Inr i
                  | None \<Rightarrow> Inl (PlTypeError ''integer'' t))"

text \<open>The narrowing of a \<^verbatim>\<open>long\<close> to the \<^verbatim>\<open>int\<close> parameter of a Qt call: two's complement,
  32 bits.\<close>

definition narrow_int :: "int \<Rightarrow> int" where
  "narrow_int i = (i + 2 ^ 31) mod 2 ^ 32 - 2 ^ 31"

text \<open>\<^verbatim>\<open>A(...)\<close> makes the atom of a text.\<close>

abbreviation A :: "string \<Rightarrow> plterm" where
  "A s \<equiv> PL_ATOM s"

subsection \<open>Reflected properties (\<^verbatim>\<open>QMetaProperty\<close>, \<^verbatim>\<open>QMetaEnum\<close>)\<close>

datatype qvariant_type =
    QVariant_Bool | QVariant_Int | QVariant_UInt | QVariant_String | QVariant_Double
  | QVariant_Other

text \<open>The property cells of one object, by property name and native type: what the
  getter of a property answers.\<close>

record qobject =
  bools :: "string \<Rightarrow> bool"
  ints :: "string \<Rightarrow> int"
  uints :: "string \<Rightarrow> int"
  strings :: "string \<Rightarrow> string"
  doubles :: "string \<Rightarrow> real"

text \<open>An enumeration as \<^verbatim>\<open>QMetaEnum\<close> has it: the name of the class that declares it (its
  scope) and the table of its keys and their values, in declaration order.\<close>

record qmetaenum =
  scope :: string
  keys :: "(string \<times> int) list"

text \<open>
  The descriptor of a property: what \<^verbatim>\<open>p.type()\<close>, \<^verbatim>\<open>p.isEnumType()\<close>, \<^verbatim>\<open>p.isFlagType()\<close>
  and \<^verbatim>\<open>p.enumerator()\<close> answer, and whether it has a setter. The setter itself is the
  property's own code and not part of this file; what is kept of it is the value the
  property has after the setter was given a value, for an object in a given state
  (\<open>set_int\<close>, \<open>set_string\<close>, \<open>set_double\<close>): the value itself when the property is plain
  storage, something else when the setter clamps or truncates.
\<close>

record qmetaproperty =
  pname :: string
  ptype :: qvariant_type
  isEnumType :: bool
  isFlagType :: bool
  enumerator :: qmetaenum
  isWritable :: bool
  set_int :: "qobject \<Rightarrow> int \<Rightarrow> int"
  set_string :: "qobject \<Rightarrow> string \<Rightarrow> string"
  set_double :: "qobject \<Rightarrow> real \<Rightarrow> real"

text \<open>
  \<^verbatim>\<open>QMetaEnum::keyToValue\<close>. The key is cut at its last colon when another colon stands
  before that one: what is before the two colons is the scope, what is after them the key
  proper. A scope that is not empty and not the enumeration's own gives -1; otherwise the
  answer is the value of the key proper, -1 when the table has no such key.
\<close>

definition split_scope :: "string \<Rightarrow> string \<times> string" where
  "split_scope key =
     (case dropWhile (\<lambda>ch. ch \<noteq> CHR '':'') (rev key) of
        c1 # c2 # sc \<Rightarrow>
          if c2 = CHR '':''
          then (rev sc, rev (takeWhile (\<lambda>ch. ch \<noteq> CHR '':'') (rev key)))
          else ([], key)
      | _ \<Rightarrow> ([], key))"

definition keyToValue :: "qmetaenum \<Rightarrow> string \<Rightarrow> int" where
  "keyToValue e key =
     (let (sc, k) = split_scope key
      in if sc \<noteq> [] \<and> sc \<noteq> scope e then - 1
         else (case map_of (keys e) k of Some i \<Rightarrow> i | None \<Rightarrow> - 1))"

text \<open>\<^verbatim>\<open>QMetaEnum::valueToKey\<close>: the first key with the value, null when there is none.\<close>

definition valueToKey :: "qmetaenum \<Rightarrow> int \<Rightarrow> string option" where
  "valueToKey e i = map_option fst (find (\<lambda>kv. snd kv = i) (keys e))"

text \<open>The values \<^verbatim>\<open>unify\<close> hands to \<^verbatim>\<open>p.write\<close>: a \<^verbatim>\<open>qint32\<close> or \<^verbatim>\<open>int\<close>, a C string, a
  \<^verbatim>\<open>double\<close>.\<close>

datatype qvariant = QV_Int int | QV_String string | QV_Double real

text \<open>
  \<^verbatim>\<open>p.write(o, value)\<close>: false (here \<open>None\<close>) when the property has no setter; otherwise
  the value is converted to the property's type and handed to the setter. The conversions
  \<^verbatim>\<open>unify\<close> can reach are the identities and \<^verbatim>\<open>int\<close> to \<^verbatim>\<open>uint\<close> (modulo \<open>2 ^ 32\<close>); no other
  conversion is modelled, and a write that would need one answers false.
\<close>

fun property_write :: "qmetaproperty \<Rightarrow> qobject \<Rightarrow> qvariant \<Rightarrow> qobject option" where
  "property_write p ob (QV_Int i) =
     (if \<not> isWritable p then None
      else if ptype p = QVariant_Int
        then Some (ob\<lparr>ints := (ints ob)(pname p := set_int p ob i)\<rparr>)
      else if ptype p = QVariant_UInt
        then Some (ob\<lparr>uints := (uints ob)(pname p := set_int p ob (i mod 2 ^ 32))\<rparr>)
      else None)"
| "property_write p ob (QV_String s) =
     (if \<not> isWritable p then None
      else if ptype p = QVariant_String
        then Some (ob\<lparr>strings := (strings ob)(pname p := set_string p ob s)\<rparr>)
      else None)"
| "property_write p ob (QV_Double d) =
     (if \<not> isWritable p then None
      else if ptype p = QVariant_Double
        then Some (ob\<lparr>doubles := (doubles ob)(pname p := set_double p ob d)\<rparr>)
      else None)"

subsection \<open>The property bridge: \<^verbatim>\<open>unify\<close>\<close>

definition type_mismatch :: failure where
  "type_mismatch = PlException (A ''property type mismatch'')"

text \<open>\<^verbatim>\<open>Q_ASSERT(!p.isFlagType())\<close>: compiled out when \<^verbatim>\<open>QT_NO_DEBUG\<close> is defined (a release
  build), an abort of the process otherwise.\<close>

definition Q_ASSERT_not_flag :: "bool \<Rightarrow> qmetaproperty \<Rightarrow> bool" where
  "Q_ASSERT_not_flag qt_no_debug p = (qt_no_debug \<or> \<not> isFlagType p)"

text \<open>The body of \<^verbatim>\<open>case QVariant::Int\<close> under \<^verbatim>\<open>case PL_ATOM\<close>, which the
  \<^verbatim>\<open>QVariant::String\<close> case falls into when its write fails. The result of the write
  of the enumeration value is not looked at.\<close>

definition unify_atom_enum ::
  "bool \<Rightarrow> qmetaproperty \<Rightarrow> qobject \<Rightarrow> string \<Rightarrow> plterm result \<times> qobject" where
  "unify_atom_enum qt_no_debug p ob a =
     (if isEnumType p then
        (if \<not> Q_ASSERT_not_flag qt_no_debug p
           then (Inl (AssertFailure ''!p.isFlagType()''), ob)
         else let i = keyToValue (enumerator p) a in
           if i \<noteq> - 1 then
             (case property_write p ob (QV_Int i) of
                Some ob' \<Rightarrow> (Inr (A a), ob')
              | None \<Rightarrow> (Inr (A a), ob))
           else (Inl type_mismatch, ob))
      else (Inl type_mismatch, ob))"

text \<open>
  \<^verbatim>\<open>unify(p, o, v)\<close>. The result is the term \<open>v\<close> stands for after the call (the value
  an unbound \<open>v\<close> is bound to; a bound \<open>v\<close> itself) and the object's cells after it.
\<close>

fun unify ::
  "bool \<Rightarrow> qmetaproperty \<Rightarrow> qobject \<Rightarrow> plterm \<Rightarrow> plterm result \<times> qobject" where
  "unify qt_no_debug p ob PL_VARIABLE =
     (case ptype p of
        QVariant_Bool \<Rightarrow>
          (Inr (if bools ob (pname p) then A ''true'' else A ''false''), ob)
      | QVariant_Int \<Rightarrow>
          (if isEnumType p then
             (if \<not> Q_ASSERT_not_flag qt_no_debug p
                then (Inl (AssertFailure ''!p.isFlagType()''), ob)
              else (case valueToKey (enumerator p) (ints ob (pname p)) of
                      Some key \<Rightarrow> (Inr (A key), ob)
                    | None \<Rightarrow> (Inr (PL_INTEGER (ints ob (pname p))), ob)))
           else (Inr (PL_INTEGER (ints ob (pname p))), ob))
      | QVariant_UInt \<Rightarrow> (Inr (PL_INTEGER (uints ob (pname p))), ob)
      | QVariant_String \<Rightarrow> (Inr (A (strings ob (pname p))), ob)
      | _ \<Rightarrow> (Inl type_mismatch, ob))"
| "unify qt_no_debug p ob (PL_INTEGER n) =
     (if ptype p = QVariant_Int \<or> ptype p = QVariant_UInt then
        (case to_qint32 (PL_INTEGER n) of
           Inl e \<Rightarrow> (Inl e, ob)
         | Inr i \<Rightarrow>
             (case property_write p ob (QV_Int i) of
                Some ob' \<Rightarrow> (Inr (PL_INTEGER n), ob')
              | None \<Rightarrow> (Inl type_mismatch, ob)))
      else (Inl type_mismatch, ob))"
| "unify qt_no_debug p ob (PL_ATOM a) =
     (if ptype p = QVariant_String then
        (case property_write p ob (QV_String a) of
           Some ob' \<Rightarrow> (Inr (A a), ob')
         | None \<Rightarrow> unify_atom_enum qt_no_debug p ob a)
      else if ptype p = QVariant_Int then unify_atom_enum qt_no_debug p ob a
      else (Inl type_mismatch, ob))"
| "unify qt_no_debug p ob (PL_FLOAT d) =
     (if ptype p = QVariant_Double then
        (case property_write p ob (QV_Double d) of
           Some ob' \<Rightarrow> (Inr (PL_FLOAT d), ob')
         | None \<Rightarrow> (Inl type_mismatch, ob))
      else (Inl type_mismatch, ob))"
| "unify qt_no_debug p ob v = (Inl type_mismatch, ob)"

subsection \<open>Widgets, consoles and the state of the GUI\<close>

text \<open>An entry of a pulldown menu: its text, the tool tip (the spare storage for
  \<^verbatim>\<open>Module:Goal\<close>), and whether it is a separator.\<close>

record qaction =
  atext :: string
  toolTip :: string
  isSeparator :: bool

text \<open>An entry of the menu bar: its text and the menu \<^verbatim>\<open>ac->menu()\<close> answers, null for
  an action that carries none.\<close>

record menubar_action =
  mtext :: string
  menu :: "qaction list option"

text \<open>A font, with the size \<^verbatim>\<open>fontMetrics().size(0, "Q")\<close> has in it.\<close>

record qfont =
  family :: string
  cell_width :: nat
  cell_height :: nat

text \<open>The console widget: the owning thread's marker, its font, the history, the text
  with the selection of its cursor (from, to), its reflected properties and their cells.\<close>

record ConsoleEdit =
  thread :: int
  font :: qfont
  history :: "string list"
  document :: string
  selection :: "nat \<times> nat"
  metaObject :: "qmetaproperty list"
  cells :: qobject

datatype qclass = ConsoleEditC ConsoleEdit | QMainWindowC "menubar_action list" | QWidgetC

text \<open>The geometry and visibility calls a predicate makes on a widget are kept as the
  sequence of calls, the latest last: what Qt and the window manager make of a call is not
  part of this file.\<close>

datatype qcall = Resize int int | Move int int | Show | Hide | ActivateWindow

record qwidget =
  parentWidget :: "nat option"
  cls :: qclass
  windowTitle :: string
  width :: nat
  height :: nat
  calls :: "qcall list"

text \<open>The tree of widgets under a top-level widget: a widget (its identity) and its
  children that are widgets, in the order of \<^verbatim>\<open>children()\<close>.\<close>

datatype wtree = WNode nat "wtree list"

text \<open>The stream triple \<^verbatim>\<open>win_open_console\<close> makes: the console that was asked for it, the
  title of the new console, and whether the three streams have been closed again.\<close>

record Swipl_IO =
  target :: nat
  title :: string
  streams_closed :: bool

record gui =
  topLevelWidgets :: "wtree list"
  objects :: "nat \<Rightarrow> qwidget"
  clipboard :: string
  quit :: bool
  preferences_console_font :: qfont
  qDebug :: "string list list"
  swipl_ios :: "Swipl_IO list"

subsection \<open>The console locator\<close>

text \<open>The loop of \<^verbatim>\<open>search_widget\<close> over its stack, the top of the stack first: pop a
  widget, return it when it matches, push its children otherwise (the last child pushed is
  the next popped).\<close>

lemma size_list_rev: "size_list f (rev xs) = size_list f xs"
  by (induction xs) (simp_all add: size_list_append)

function search_stack :: "(nat \<Rightarrow> bool) \<Rightarrow> wtree list \<Rightarrow> nat option" where
  "search_stack match [] = None"
| "search_stack match (WNode p cs # s) =
     (if match p then Some p else search_stack match (rev cs @ s))"
  by pat_completeness auto
termination
  by (relation "measure (\<lambda>(match, s). size_list size s)")
     (simp_all add: size_list_append size_list_rev)

fun search_widget :: "(nat \<Rightarrow> bool) \<Rightarrow> wtree list \<Rightarrow> nat option" where
  "search_widget match [] = None"
| "search_widget match (widget # rest) =
     (case search_stack match [widget] of
        Some p \<Rightarrow> Some p
      | None \<Rightarrow> search_widget match rest)"

text \<open>Modelled from the spec: \<^verbatim>\<open>ConsoleEdit::match_thread\<close> is not in this file; the
  spec has the console's owning-thread marker equal the identifier.\<close>

definition match_thread :: "ConsoleEdit \<Rightarrow> int \<Rightarrow> bool" where
  "match_thread ce thid = (thread ce = thid)"

text \<open>\<^verbatim>\<open>qobject_cast<ConsoleEdit*>\<close>: the console when the widget is one, null otherwise.\<close>

definition as_ConsoleEdit :: "gui \<Rightarrow> nat \<Rightarrow> ConsoleEdit option" where
  "as_ConsoleEdit g p = (case cls (objects g p) of ConsoleEditC ce \<Rightarrow> Some ce | _ \<Rightarrow> None)"

definition console_by_thread :: "gui \<Rightarrow> int \<Rightarrow> (nat \<times> ConsoleEdit) option" where
  "console_by_thread g thid =
     (case search_widget
             (\<lambda>p. case as_ConsoleEdit g p of
                     Some ce \<Rightarrow> match_thread ce thid
                   | None \<Rightarrow> False)
             (topLevelWidgets g) of
        None \<Rightarrow> None
      | Some p \<Rightarrow> map_option (Pair p) (as_ConsoleEdit g p))"

definition console_peek_first :: "gui \<Rightarrow> (nat \<times> ConsoleEdit) option" where
  "console_peek_first g =
     (case search_widget (\<lambda>p. as_ConsoleEdit g p \<noteq> None) (topLevelWidgets g) of
        None \<Rightarrow> None
      | Some p \<Rightarrow> map_option (Pair p) (as_ConsoleEdit g p))"

text \<open>Writing a console back into the state, and the main window that frames a widget:
  \<^verbatim>\<open>qobject_cast<QMainWindow*>(ce->parentWidget())\<close>.\<close>

definition set_console :: "nat \<Rightarrow> ConsoleEdit \<Rightarrow> gui \<Rightarrow> gui" where
  "set_console c ce g =
     g\<lparr>objects := (objects g)(c := (objects g c)\<lparr>cls := ConsoleEditC ce\<rparr>)\<rparr>"

definition parent_QMainWindow :: "gui \<Rightarrow> nat \<Rightarrow> (nat \<times> menubar_action list) option" where
  "parent_QMainWindow g c =
     (case parentWidget (objects g c) of
        None \<Rightarrow> None
      | Some w \<Rightarrow> (case cls (objects g w) of
                    QMainWindowC mbar \<Rightarrow> Some (w, mbar)
                  | _ \<Rightarrow> None))"

definition set_menuBar :: "nat \<Rightarrow> menubar_action list \<Rightarrow> gui \<Rightarrow> gui" where
  "set_menuBar w mbar g =
     g\<lparr>objects := (objects g)(w := (objects g w)\<lparr>cls := QMainWindowC mbar\<rparr>)\<rparr>"

text \<open>What a predicate answers: \<^verbatim>\<open>TRUE\<close> or \<^verbatim>\<open>FALSE\<close> with the terms its output
  arguments are unified with (in the order of the arguments), or a failure; and the state
  it leaves.\<close>

type_synonym answer = "(bool \<times> plterm list) result \<times> gui"

abbreviation FALSE :: "(bool \<times> plterm list) result" where
  "FALSE \<equiv> Inr (False, [])"

abbreviation TRUE :: "plterm list \<Rightarrow> (bool \<times> plterm list) result" where
  "TRUE outs \<equiv> Inr (True, outs)"

subsection \<open>\<^verbatim>\<open>console_settings\<close>\<close>

text \<open>\<^verbatim>\<open>indexOfProperty\<close> followed by \<^verbatim>\<open>property(pid)\<close>: the property of that name, none
  when the index is negative.\<close>

definition indexOfProperty :: "qmetaproperty list \<Rightarrow> string \<Rightarrow> qmetaproperty option" where
  "indexOfProperty ps n = find (\<lambda>p. pname p = n) ps"

text \<open>The loop over the options. A failure leaves the cells as the options before it
  have set them. The terms returned are the arguments of the options after the call.\<close>

fun console_settings_loop ::
  "bool \<Rightarrow> ConsoleEdit \<Rightarrow> plterm list \<Rightarrow> plterm list result \<times> ConsoleEdit" where
  "console_settings_loop qt_no_debug ce [] = (Inr [], ce)"
| "console_settings_loop qt_no_debug ce (opt # opts) =
     (case arity opt of
        Inl e \<Rightarrow> (Inl e, ce)
      | Inr n \<Rightarrow>
          if n = 1 then
            (case name opt of
               Inl e \<Rightarrow> (Inl e, ce)
             | Inr nm \<Rightarrow>
                 (case indexOfProperty (metaObject ce) nm of
                    Some p \<Rightarrow>
                      (case arg opt 1 of
                         Inl e \<Rightarrow> (Inl e, ce)
                       | Inr v \<Rightarrow>
                           (case unify qt_no_debug p (cells ce) v of
                              (Inl e, ob) \<Rightarrow> (Inl e, ce\<lparr>cells := ob\<rparr>)
                            | (Inr v', ob) \<Rightarrow>
                                (case console_settings_loop qt_no_debug (ce\<lparr>cells := ob\<rparr>) opts of
                                   (Inl e, ce') \<Rightarrow> (Inl e, ce')
                                 | (Inr vs, ce') \<Rightarrow> (Inr (v' # vs), ce'))))
                  | None \<Rightarrow> (Inl (PlException (A ''property not found'')), ce)))
          else (Inl (PlException (A ''properties have arity 1'')), ce))"

definition console_settings :: "bool \<Rightarrow> gui \<Rightarrow> int \<Rightarrow> plterm list \<Rightarrow> answer" where
  "console_settings qt_no_debug g thid opts =
     (case console_by_thread g thid of
        Some (c, ce) \<Rightarrow>
          (case console_settings_loop qt_no_debug ce opts of
             (Inl e, ce') \<Rightarrow> (Inl e, set_console c ce' g)
           | (Inr vs, ce') \<Rightarrow> (TRUE vs, set_console c ce' g))
      | None \<Rightarrow> (FALSE, g))"

subsection \<open>\<^verbatim>\<open>window_title\<close>, \<^verbatim>\<open>win_window_pos\<close>, \<^verbatim>\<open>win_has_menu\<close>\<close>

text \<open>The argument \<open>New\<close> is the text \<^verbatim>\<open>CCP(A2)\<close>.\<close>

definition window_title :: "gui \<Rightarrow> int \<Rightarrow> string \<Rightarrow> answer" where
  "window_title g thid New =
     (case console_by_thread g thid of
        Some (c, ce) \<Rightarrow>
          (case parentWidget (objects g c) of
             Some w \<Rightarrow>
               (case cls (objects g w) of
                  QMainWindowC mbar \<Rightarrow>
                    (TRUE [A (windowTitle (objects g w))],
                     g\<lparr>objects := (objects g)(w := (objects g w)\<lparr>windowTitle := New\<rparr>)\<rparr>)
                | _ \<Rightarrow> (FALSE, g))
           | None \<Rightarrow> (FALSE, g))
      | None \<Rightarrow> (FALSE, g))"

text \<open>\<^verbatim>\<open>long W = opt[1], H = opt[2]\<close>: each argument is converted as it is read.\<close>

definition long_arg :: "plterm \<Rightarrow> nat \<Rightarrow> int result" where
  "long_arg opt i = (case arg opt i of Inl e \<Rightarrow> Inl e | Inr t \<Rightarrow> to_long t)"

definition two_longs :: "plterm \<Rightarrow> (int \<times> int) result" where
  "two_longs opt =
     (case long_arg opt 1 of
        Inl e \<Rightarrow> Inl e
      | Inr a \<Rightarrow> (case long_arg opt 2 of Inl e \<Rightarrow> Inl e | Inr b \<Rightarrow> Inr (a, b)))"

definition call :: "qcall \<Rightarrow> qwidget \<Rightarrow> qwidget" where
  "call q w = w\<lparr>calls := calls w @ [q]\<rparr>"

text \<open>The body of the loop of \<^verbatim>\<open>win_window_pos\<close> for one option: \<open>Inr True\<close> stands for
  \<^verbatim>\<open>continue\<close>, \<open>Inr False\<close> for \<^verbatim>\<open>return FALSE\<close>.\<close>

definition window_pos_option :: "ConsoleEdit \<Rightarrow> qwidget \<Rightarrow> plterm \<Rightarrow> bool result \<times> qwidget" where
  "window_pos_option c w opt =
     (case arity opt of
        Inl e \<Rightarrow> (Inl e, w)
      | Inr a \<Rightarrow>
     (case name opt of
        Inl e \<Rightarrow> (Inl e, w)
      | Inr n \<Rightarrow>
          if (a, n) = (2, ''size'') then
            (case two_longs opt of
               Inl e \<Rightarrow> (Inl e, w)
             | Inr (W, H) \<Rightarrow>
                 (Inr True,
                  call (Resize (narrow_int (int (cell_width (font c)) * W))
                               (narrow_int (int (cell_height (font c)) * H))) w))
          else if (a, n) = (2, ''position'') then
            (case two_longs opt of
               Inl e \<Rightarrow> (Inl e, w)
             | Inr (X, Y) \<Rightarrow> (Inr True, call (Move (narrow_int X) (narrow_int Y)) w))
          else if (a, n) = (1, ''zorder'') then (Inr True, w)
          else if (a, n) = (1, ''show'') then
            (case arg opt 1 of
               Inl e \<Rightarrow> (Inl e, w)
             | Inr t \<Rightarrow>
                 (case name t of
                    Inl e \<Rightarrow> (Inl e, w)
                  | Inr y \<Rightarrow> (Inr True, if y = ''true'' then call Show w else call Hide w)))
          else if (a, n) = (0, ''activate'') then (Inr True, call ActivateWindow w)
          else (Inr False, w)))"

fun win_window_pos_loop ::
  "ConsoleEdit \<Rightarrow> qwidget \<Rightarrow> plterm list \<Rightarrow> bool result \<times> qwidget" where
  "win_window_pos_loop c w [] = (Inr True, w)"
| "win_window_pos_loop c w (opt # options) =
     (case window_pos_option c w opt of
        (Inr True, w') \<Rightarrow> win_window_pos_loop c w' options
      | (r, w') \<Rightarrow> (r, w'))"

definition win_window_pos :: "gui \<Rightarrow> int \<Rightarrow> plterm list \<Rightarrow> answer" where
  "win_window_pos g thid options =
     (case console_by_thread g thid of
        None \<Rightarrow> (FALSE, g)
      | Some (c, ce) \<Rightarrow>
          (case parentWidget (objects g c) of
             None \<Rightarrow> (FALSE, g)
           | Some w \<Rightarrow>
               (case win_window_pos_loop ce (objects g w) options of
                  (Inl e, w') \<Rightarrow> (Inl e, g\<lparr>objects := (objects g)(w := w')\<rparr>)
                | (Inr b, w') \<Rightarrow> (Inr (b, []), g\<lparr>objects := (objects g)(w := w')\<rparr>))))"

definition win_has_menu :: "gui \<Rightarrow> int \<Rightarrow> answer" where
  "win_has_menu g thid =
     (case console_by_thread g thid of
        Some (c, ce) \<Rightarrow>
          (case parent_QMainWindow g c of Some mw \<Rightarrow> (TRUE [], g) | None \<Rightarrow> (FALSE, g))
      | None \<Rightarrow> (FALSE, g))"

subsection \<open>The menu bridge\<close>

text \<open>Modelled from the spec: \<^verbatim>\<open>ConsoleEdit::exec_func\<close> is not in this file; the spec has
  the unit of work run on the GUI thread. Here it runs at once.\<close>

definition exec_func :: "(gui \<Rightarrow> 'a \<times> gui) \<Rightarrow> gui \<Rightarrow> 'a \<times> gui" where
  "exec_func f g = f g"

text \<open>The position of the first element that matches, as a \<^verbatim>\<open>foreach\<close> with a
  \<^verbatim>\<open>return\<close> in its body finds it; and the insertion of an element before a position
  (\<^verbatim>\<open>insertAction\<close>, \<^verbatim>\<open>insertMenu\<close>, \<^verbatim>\<open>insertSeparator\<close>).\<close>

fun first_index :: "('a \<Rightarrow> bool) \<Rightarrow> 'a list \<Rightarrow> nat option" where
  "first_index P [] = None"
| "first_index P (x # xs) =
     (if P x then Some 0 else map_option Suc (first_index P xs))"

definition insert_before :: "nat \<Rightarrow> 'a \<Rightarrow> 'a list \<Rightarrow> 'a list" where
  "insert_before i x xs = take i xs @ x # drop i xs"

text \<open>\<^verbatim>\<open>add_action\<close>: a new action with the label, and the tool tip \<^verbatim>\<open>ctxtmod:Goal\<close>,
  inserted before the action at \<open>before\<close> or added at the end. It answers the position of
  the new action and the menu. The connection of the action to the console's slot is not
  part of the state.\<close>

definition add_action ::
  "qaction list \<Rightarrow> string \<Rightarrow> string \<Rightarrow> string \<Rightarrow> nat option \<Rightarrow> nat \<times> qaction list" where
  "add_action mn Label ctxtmod Goal before =
     (let a = \<lparr>atext = Label, toolTip = ctxtmod @ '':'' @ Goal, isSeparator = False\<rparr>
      in case before of
           Some i \<Rightarrow> (i, insert_before i a mn)
         | None \<Rightarrow> (length mn, mn @ [a]))"

definition separator :: qaction where
  "separator = \<lparr>atext = [], toolTip = [], isSeparator = True\<rparr>"

text \<open>\<^verbatim>\<open>new QMenu(Label)\<close> as the menu bar shows it: an entry with that text and an empty
  menu.\<close>

definition QMenu :: "string \<Rightarrow> menubar_action" where
  "QMenu Label = \<lparr>mtext = Label, menu = Some []\<rparr>"

text \<open>The closure of \<^verbatim>\<open>win_insert_menu\<close> on the menu bar of the main window: the new
  menu bar, or \<open>None\<close> where the closure reaches its \<^verbatim>\<open>qDebug\<close> line.\<close>

definition insert_menu :: "string \<Rightarrow> string \<Rightarrow> menubar_action list \<Rightarrow> menubar_action list option" where
  "insert_menu Label Before mbar =
     (case first_index (\<lambda>ac. mtext ac = Label) mbar of
        Some i \<Rightarrow> Some mbar
      | None \<Rightarrow>
          (case first_index (\<lambda>ac. mtext ac = Before) mbar of
             Some i \<Rightarrow> Some (insert_before i (QMenu Label) mbar)
           | None \<Rightarrow> if Before = ''-'' then Some (mbar @ [QMenu Label]) else None))"

definition win_insert_menu_closure :: "nat \<Rightarrow> string \<Rightarrow> string \<Rightarrow> gui \<Rightarrow> unit \<times> gui" where
  "win_insert_menu_closure c Label Before g =
     (case (case parent_QMainWindow g c of
              Some (mw, mbar) \<Rightarrow> map_option (Pair mw) (insert_menu Label Before mbar)
            | None \<Rightarrow> None) of
        Some (mw, mbar') \<Rightarrow> ((), set_menuBar mw mbar' g)
      | None \<Rightarrow> ((), g\<lparr>qDebug := qDebug g @ [[''failed win_insert_menu'', Label, Before]]\<rparr>))"

definition win_insert_menu :: "gui \<Rightarrow> int \<Rightarrow> string \<Rightarrow> string \<Rightarrow> answer" where
  "win_insert_menu g thid Label Before =
     (case console_by_thread g thid of
        Some (c, ce) \<Rightarrow> (TRUE [], snd (exec_func (win_insert_menu_closure c Label Before) g))
      | None \<Rightarrow> (FALSE, g))"

text \<open>
  The body of the closure of \<^verbatim>\<open>win_insert_menu_item\<close> for a menu bar entry whose text is
  the pulldown's, on the entry's menu: the menu it leaves, and whether the closure returns
  (\<open>True\<close>) or goes on to the next entry of the menu bar (\<open>False\<close>, the path that makes a
  placeholder for an unmatched \<open>Before\<close>).
\<close>

definition insert_menu_item ::
  "string \<Rightarrow> string \<Rightarrow> string \<Rightarrow> string \<Rightarrow> qaction list \<Rightarrow> bool \<times> qaction list" where
  "insert_menu_item Label Before Goal ctxtmod mn =
     (case (if Label \<noteq> ''--'' then first_index (\<lambda>bc. atext bc = Label) mn else None) of
        Some i \<Rightarrow> (True, mn[i := (mn ! i)\<lparr>toolTip := Goal\<rparr>])
      | None \<Rightarrow>
          if Before = ''-'' then
            (if Label = ''--'' then (True, mn @ [separator])
             else (True, snd (add_action mn Label ctxtmod Goal None)))
          else
            (case first_index (\<lambda>bc. atext bc = Before) mn of
               Some i \<Rightarrow>
                 (if Label = ''--'' then (True, insert_before i separator mn)
                  else (True, snd (add_action mn Label ctxtmod Goal (Some i))))
             | None \<Rightarrow>
                 (let (bc, mn') = add_action mn Before ctxtmod [] None
                  in (False, snd (add_action mn' Label ctxtmod Goal (Some bc))))))"

text \<open>The loop over the entries of the menu bar. An entry with the pulldown's text and no
  menu is a null pointer where \<^verbatim>\<open>ac->menu()\<close> is used.\<close>

fun win_insert_menu_item_loop ::
  "string \<Rightarrow> string \<Rightarrow> string \<Rightarrow> string \<Rightarrow> string \<Rightarrow> menubar_action list
     \<Rightarrow> unit result \<times> menubar_action list" where
  "win_insert_menu_item_loop Pulldown Label Before Goal ctxtmod [] = (Inr (), [])"
| "win_insert_menu_item_loop Pulldown Label Before Goal ctxtmod (ac # acs) =
     (if mtext ac = Pulldown then
        (case menu ac of
           None \<Rightarrow> (Inl (NullPointer ''ac->menu()''), ac # acs)
         | Some mn \<Rightarrow>
             (case insert_menu_item Label Before Goal ctxtmod mn of
                (True, mn') \<Rightarrow> (Inr (), ac\<lparr>menu := Some mn'\<rparr> # acs)
              | (False, mn') \<Rightarrow>
                  (case win_insert_menu_item_loop Pulldown Label Before Goal ctxtmod acs of
                     (r, acs') \<Rightarrow> (r, ac\<lparr>menu := Some mn'\<rparr> # acs'))))
      else (case win_insert_menu_item_loop Pulldown Label Before Goal ctxtmod acs of
              (r, acs') \<Rightarrow> (r, ac # acs')))"

definition win_insert_menu_item_closure ::
  "nat \<Rightarrow> string \<Rightarrow> string \<Rightarrow> string \<Rightarrow> string \<Rightarrow> string \<Rightarrow> gui \<Rightarrow> unit result \<times> gui" where
  "win_insert_menu_item_closure c Pulldown Label Before Goal ctxtmod g =
     (case parent_QMainWindow g c of
        Some (mw, mbar) \<Rightarrow>
          (case win_insert_menu_item_loop Pulldown Label Before Goal ctxtmod mbar of
             (r, mbar') \<Rightarrow> (r, set_menuBar mw mbar' g))
      | None \<Rightarrow> (Inr (), g))"

text \<open>The context module is read and then overwritten: \<^verbatim>\<open>ctxtmod = "win_menu"\<close>.\<close>

definition win_insert_menu_item ::
  "gui \<Rightarrow> int \<Rightarrow> string \<Rightarrow> string \<Rightarrow> string \<Rightarrow> string \<Rightarrow> answer" where
  "win_insert_menu_item g thid Pulldown Label Before Goal =
     (case console_by_thread g thid of
        Some (c, ce) \<Rightarrow>
          (case exec_func (win_insert_menu_item_closure c Pulldown Label Before Goal ''win_menu'') g of
             (Inl e, g') \<Rightarrow> (Inl e, g')
           | (Inr u, g') \<Rightarrow> (TRUE [], g'))
      | None \<Rightarrow> (FALSE, g))"

subsection \<open>The console's text, history and size\<close>

text \<open>Modelled from the spec: \<^verbatim>\<open>ConsoleEdit::tty_clear\<close> is not in this file; the spec has
  it clear the console's visible buffer.\<close>

definition tty_clear_console :: "ConsoleEdit \<Rightarrow> ConsoleEdit" where
  "tty_clear_console ce = ce\<lparr>document := [], selection := (0, 0)\<rparr>"

definition tty_clear :: "gui \<Rightarrow> int \<Rightarrow> answer" where
  "tty_clear g thid =
     (case console_by_thread g thid of
        Some (c, ce) \<Rightarrow> (TRUE [], set_console c (tty_clear_console ce) g)
      | None \<Rightarrow> (FALSE, g))"

text \<open>Modelled from the spec: \<^verbatim>\<open>ConsoleEdit::add_history_line\<close> is not in this file; the
  spec has the history an ordered sequence of strings that a line is appended to.\<close>

definition add_history_line :: "string \<Rightarrow> ConsoleEdit \<Rightarrow> ConsoleEdit" where
  "add_history_line line ce = ce\<lparr>history := history ce @ [line]\<rparr>"

text \<open>Modelled from the spec: \<^verbatim>\<open>ConsoleEdit::history_lines\<close>, the history in the order the
  lines were appended.\<close>

definition history_lines :: "ConsoleEdit \<Rightarrow> string list" where
  "history_lines ce = history ce"

text \<open>The argument \<open>line\<close> is the text \<^verbatim>\<open>WCP(A1)\<close>.\<close>

definition rl_add_history :: "gui \<Rightarrow> int \<Rightarrow> string \<Rightarrow> answer" where
  "rl_add_history g thid line =
     (case console_by_thread g thid of
        Some (c, ce) \<Rightarrow>
          (TRUE [], if line \<noteq> [] then set_console c (add_history_line line ce) g else g)
      | None \<Rightarrow> (FALSE, g))"

definition rl_read_init_file :: "gui \<Rightarrow> int \<Rightarrow> plterm \<Rightarrow> answer" where
  "rl_read_init_file g thid a1 = (TRUE [], g)"

text \<open>A Prolog list, as \<^verbatim>\<open>PlTail::append\<close> and \<^verbatim>\<open>close\<close> build it.\<close>

fun pl_list :: "plterm list \<Rightarrow> plterm" where
  "pl_list [] = A ''[]''"
| "pl_list (t # ts) = PL_TERM ''[|]'' [t, pl_list ts]"

text \<open>Modelled from the spec: the macro \<^verbatim>\<open>W\<close> is not in this file; the spec has the
  history returned as strings.\<close>

definition W :: "string \<Rightarrow> plterm" where
  "W x = PL_STRING x"

definition rl_history :: "gui \<Rightarrow> int \<Rightarrow> answer" where
  "rl_history g thid =
     (case console_by_thread g thid of
        Some (c, ce) \<Rightarrow> (TRUE [pl_list (map W (history_lines ce))], g)
      | None \<Rightarrow> (FALSE, g))"

text \<open>The division of two \<^verbatim>\<open>int\<close>s that are not negative; by zero it is undefined
  behaviour, kept here as a failure.\<close>

definition int_div :: "nat \<Rightarrow> nat \<Rightarrow> int result" where
  "int_div a b = (if b = 0 then Inl DivideByZero else Inr (int (a div b)))"

definition tty_size :: "gui \<Rightarrow> int \<Rightarrow> answer" where
  "tty_size g thid =
     (case console_by_thread g thid of
        Some (c, ce) \<Rightarrow>
          (case int_div (height (objects g c)) (cell_height (font ce)) of
             Inl e \<Rightarrow> (Inl e, g)
           | Inr Rows \<Rightarrow>
               (case int_div (width (objects g c)) (cell_width (font ce)) of
                  Inl e \<Rightarrow> (Inl e, g)
                | Inr Cols \<Rightarrow> (TRUE [PL_INTEGER Rows, PL_INTEGER Cols], g)))
      | None \<Rightarrow> (FALSE, g))"

subsection \<open>\<^verbatim>\<open>win_open_console\<close>\<close>

text \<open>Modelled from the spec: \<^verbatim>\<open>ConsoleEdit::new_console\<close> and \<^verbatim>\<open>Swipl_IO\<close> are not in this
  file; the spec has a new stream triple bound to a newly named console.\<close>

definition new_console :: "nat \<Rightarrow> string \<Rightarrow> gui \<Rightarrow> gui" where
  "new_console ce Title g =
     g\<lparr>swipl_ios := swipl_ios g @ [\<lparr>target = ce, title = Title, streams_closed = False\<rparr>]\<rparr>"

definition stream_term :: "nat \<Rightarrow> string \<Rightarrow> plterm" where
  "stream_term io which = PL_TERM ''$stream'' [PL_INTEGER (int io), A which]"

text \<open>\<^verbatim>\<open>PL_unify_stream\<close> with a stream just made: it succeeds on an unbound argument.\<close>

definition PL_unify_stream :: "plterm \<Rightarrow> bool" where
  "PL_unify_stream t = (t = PL_VARIABLE)"

definition Sclose_all :: "nat \<Rightarrow> gui \<Rightarrow> gui" where
  "Sclose_all io g = g\<lparr>swipl_ios := (swipl_ios g)[io := (swipl_ios g ! io)\<lparr>streams_closed := True\<rparr>]\<rparr>"

text \<open>The line \<^verbatim>\<open>qDebug\<close> prints first also has the address of the calling thread, which
  is left out.\<close>

definition win_open_console :: "gui \<Rightarrow> int \<Rightarrow> string \<Rightarrow> plterm \<Rightarrow> plterm \<Rightarrow> plterm \<Rightarrow> answer" where
  "win_open_console g thid Title a2 a3 a4 =
     (let g1 = g\<lparr>qDebug := qDebug g @ [[''win_open_console'']]\<rparr> in
      case console_peek_first g1 of
        None \<Rightarrow> (Inl (PlException (A ''no ConsoleEdit available'')), g1)
      | Some (ce, console) \<Rightarrow>
          (let io = length (swipl_ios g1);
               g2 = new_console ce Title g1
           in if \<not> PL_unify_stream a2 \<or> \<not> PL_unify_stream a3 \<or> \<not> PL_unify_stream a4
              then (FALSE, Sclose_all io g2)
              else (TRUE [stream_term io ''in'', stream_term io ''out'', stream_term io ''err''],
                    g2)))"

subsection \<open>Dialogs, quit and the clipboard\<close>

text \<open>
  The user's answer to a modal dialog is a parameter: for a file dialog the path chosen
  for a caption, a start path and a pattern (empty when cancelled); for the font dialog
  whether a font was accepted, and the font, for the font the dialog starts from.

  Modelled from the spec: \<^verbatim>\<open>ConsoleEdit::exec_sync\<close> is not in this file; the spec has the
  caller wait until the unit of work has run. Here the closure has run when \<^verbatim>\<open>exec_func\<close>
  returns.
\<close>

definition file_dialog ::
  "(string \<Rightarrow> string \<Rightarrow> string \<Rightarrow> string) \<Rightarrow> gui \<Rightarrow> int \<Rightarrow> string \<Rightarrow> plterm \<Rightarrow> string \<Rightarrow> answer" where
  "file_dialog dialog g thid Caption a2 Pattern =
     (case console_by_thread g thid of
        Some (c, ce) \<Rightarrow>
          (let StartPath = (case a2 of PL_ATOM s \<Rightarrow> s | _ \<Rightarrow> []);
               (Choice, g') = exec_func (\<lambda>g. (dialog Caption StartPath Pattern, g)) g
           in if Choice \<noteq> [] then (TRUE [A Choice], g') else (FALSE, g'))
      | None \<Rightarrow> (FALSE, g))"

definition getOpenFileName ::
  "(string \<Rightarrow> string \<Rightarrow> string \<Rightarrow> string) \<Rightarrow> gui \<Rightarrow> int \<Rightarrow> string \<Rightarrow> plterm \<Rightarrow> string \<Rightarrow> answer" where
  "getOpenFileName QFileDialog_getOpenFileName = file_dialog QFileDialog_getOpenFileName"

definition getSaveFileName ::
  "(string \<Rightarrow> string \<Rightarrow> string \<Rightarrow> string) \<Rightarrow> gui \<Rightarrow> int \<Rightarrow> string \<Rightarrow> plterm \<Rightarrow> string \<Rightarrow> answer" where
  "getSaveFileName QFileDialog_getSaveFileName = file_dialog QFileDialog_getSaveFileName"

text \<open>Modelled from the spec: the class \<^verbatim>\<open>Preferences\<close> is not in this file; the spec has
  the font that is accepted persisted as the preference, kept here in the state.\<close>

definition select_font_closure :: "(qfont \<Rightarrow> bool \<times> qfont) \<Rightarrow> nat \<Rightarrow> gui \<Rightarrow> bool \<times> gui" where
  "select_font_closure QFontDialog_getFont c g =
     (let (ok, fnt) = QFontDialog_getFont (preferences_console_font g)
      in if ok then
           (ok, (case as_ConsoleEdit g c of
                   Some ce \<Rightarrow> set_console c (ce\<lparr>font := fnt\<rparr>) g
                 | None \<Rightarrow> g)\<lparr>preferences_console_font := fnt\<rparr>)
         else (ok, g))"

definition select_font :: "(qfont \<Rightarrow> bool \<times> qfont) \<Rightarrow> gui \<Rightarrow> int \<Rightarrow> answer" where
  "select_font QFontDialog_getFont g thid =
     (case console_by_thread g thid of
        Some (c, ce) \<Rightarrow>
          (case exec_func (select_font_closure QFontDialog_getFont c) g of
             (ok, g') \<Rightarrow> (Inr (ok, []), g'))
      | None \<Rightarrow> (Inr (False, []), g))"

definition quit_console :: "gui \<Rightarrow> int \<Rightarrow> answer" where
  "quit_console g thid =
     (case console_by_thread g thid of
        Some (c, ce) \<Rightarrow> (TRUE [], snd (exec_func (\<lambda>g. ((), g\<lparr>quit := True\<rparr>)) g))
      | None \<Rightarrow> (FALSE, g))"

text \<open>The selection of the console's cursor, and the insertion of a text at the cursor (in
  place of the selection). \<^verbatim>\<open>do_events()\<close>, which the closures of \<^verbatim>\<open>copy\<close> and \<^verbatim>\<open>paste\<close>
  call last, is not in this file and is taken to leave the state as it is.\<close>

definition selectedText :: "ConsoleEdit \<Rightarrow> string" where
  "selectedText ce =
     (let (a, b) = selection ce
      in take (max a b - min a b) (drop (min a b) (document ce)))"

definition insertText :: "string \<Rightarrow> ConsoleEdit \<Rightarrow> ConsoleEdit" where
  "insertText t ce =
     (let (a, b) = selection ce; cur = min a b + length t
      in ce\<lparr>document := take (min a b) (document ce) @ t @ drop (max a b) (document ce),
            selection := (cur, cur)\<rparr>)"

definition copy :: "gui \<Rightarrow> int \<Rightarrow> answer" where
  "copy g thid =
     (case console_by_thread g thid of
        Some (c, ce) \<Rightarrow>
          (TRUE [], snd (exec_func (\<lambda>g. ((), g\<lparr>clipboard := selectedText ce\<rparr>)) g))
      | None \<Rightarrow> (FALSE, g))"

definition paste :: "gui \<Rightarrow> int \<Rightarrow> answer" where
  "paste g thid =
     (case console_by_thread g thid of
        Some (c, ce) \<Rightarrow>
          (TRUE [], snd (exec_func (\<lambda>g. ((), set_console c (insertText (clipboard g) ce) g)) g))
      | None \<Rightarrow> (FALSE, g))"

section \<open>The notions the specification speaks of\<close>

subsection \<open>Kinds of properties and of terms\<close>

text \<open>The declared kind of a property, in the specification's list (boolean, integer,
  enumerated integer, unsigned integer, string), with the double the code also writes.\<close>

datatype property_kind =
    K_boolean | K_integer | K_enumerated | K_unsigned | K_string | K_double | K_other

definition declared_kind :: "qmetaproperty \<Rightarrow> property_kind" where
  "declared_kind p =
     (case ptype p of
        QVariant_Bool \<Rightarrow> K_boolean
      | QVariant_Int \<Rightarrow> (if isEnumType p then K_enumerated else K_integer)
      | QVariant_UInt \<Rightarrow> K_unsigned
      | QVariant_String \<Rightarrow> K_string
      | QVariant_Double \<Rightarrow> K_double
      | QVariant_Other \<Rightarrow> K_other)"

text \<open>A name of an enumeration: one of its keys, plain or after two colons, with or
  without the enumeration's scope before them.\<close>

definition enum_name :: "qmetaenum \<Rightarrow> string \<Rightarrow> bool" where
  "enum_name e a =
     (\<exists>k\<in>fst ` set (keys e). a = k \<or> a = ''::'' @ k \<or> a = scope e @ ''::'' @ k)"

text \<open>
  When a bound term is of a property's kind: one of the two boolean atoms for a boolean,
  an integer for the three integer kinds, a name of the enumeration for an enumerated
  integer, an atom or a string for a string, a float for a double. Everything else is a
  kind mismatch: an atom for a numeric-only property, a name the enumeration does not
  have.
\<close>

fun kinds_agree :: "property_kind \<Rightarrow> qmetaenum \<Rightarrow> plterm \<Rightarrow> bool" where
  "kinds_agree K_boolean e (PL_ATOM a) = (a = ''true'' \<or> a = ''false'')"
| "kinds_agree K_integer e (PL_INTEGER n) = True"
| "kinds_agree K_unsigned e (PL_INTEGER n) = True"
| "kinds_agree K_enumerated e (PL_INTEGER n) = True"
| "kinds_agree K_enumerated e (PL_ATOM a) = enum_name e a"
| "kinds_agree K_string e (PL_ATOM a) = True"
| "kinds_agree K_string e (PL_STRING s) = True"
| "kinds_agree K_double e (PL_FLOAT d) = True"
| "kinds_agree k e v = False"

definition mismatch :: "qmetaproperty \<Rightarrow> plterm \<Rightarrow> bool" where
  "mismatch p v = (v \<noteq> PL_VARIABLE \<and> \<not> kinds_agree (declared_kind p) (enumerator p) v)"

text \<open>The failures that are raised to the caller, as Prolog exceptions; the others stop
  the process.\<close>

fun raised :: "failure \<Rightarrow> bool" where
  "raised (PlException t) = True"
| "raised (PlTypeError expected t) = True"
| "raised f = False"

text \<open>An option \<open>name(Value)\<close> of \<^verbatim>\<open>console_settings\<close> whose value mismatches the property
  of that name.\<close>

fun mismatched_option :: "qmetaproperty list \<Rightarrow> plterm \<Rightarrow> bool" where
  "mismatched_option ps (PL_TERM nm [v]) =
     (case indexOfProperty ps nm of Some p \<Rightarrow> mismatch p v | None \<Rightarrow> False)"
| "mismatched_option ps opt = False"

text \<open>Writing a value through the bridge and reading the same property back: the term
  read, or the failure of the write.\<close>

definition write_then_read ::
  "bool \<Rightarrow> qmetaproperty \<Rightarrow> qobject \<Rightarrow> plterm \<Rightarrow> plterm result" where
  "write_then_read qt_no_debug p ob v =
     (case unify qt_no_debug p ob v of
        (Inl e, ob') \<Rightarrow> Inl e
      | (Inr v', ob') \<Rightarrow> fst (unify qt_no_debug p ob' PL_VARIABLE))"

text \<open>A name of an enumeration that is the first key of its value, the value not being
  -1.\<close>

definition first_key :: "qmetaenum \<Rightarrow> string \<Rightarrow> bool" where
  "first_key e k = (keyToValue e k \<noteq> - 1 \<and> valueToKey e (keyToValue e k) = Some k)"

subsection \<open>Options of \<^verbatim>\<open>win_window_pos\<close>\<close>

text \<open>A known option: one of \<open>size/2\<close>, \<open>position/2\<close>, \<open>zorder/1\<close>, \<open>show/1\<close>,
  \<open>activate/0\<close>, by name and arity.\<close>

definition known_option :: "plterm \<Rightarrow> bool" where
  "known_option opt =
     (name_arity opt \<in> {Some (''size'', 2), Some (''position'', 2), Some (''zorder'', 1),
                         Some (''show'', 1), Some (''activate'', 0)})"

text \<open>The arguments of an option convert: those of \<open>size\<close> and \<open>position\<close> are integers
  that fit a \<^verbatim>\<open>long\<close>, the one of \<open>show\<close> is an atom or a compound.\<close>

fun args_convert :: "plterm \<Rightarrow> bool" where
  "args_convert (PL_TERM f [a, b]) =
     (if f = ''size'' \<or> f = ''position''
      then PL_get_signed 64 a \<noteq> None \<and> PL_get_signed 64 b \<noteq> None else True)"
| "args_convert (PL_TERM f [a]) = (if f = ''show'' then name_arity a \<noteq> None else True)"
| "args_convert opt = True"

subsection \<open>Menus\<close>

text \<open>The number of entries with a label in the menu bar of the main window that frames
  a console.\<close>

definition menus_labelled :: "string \<Rightarrow> gui \<Rightarrow> nat \<Rightarrow> nat" where
  "menus_labelled L g c =
     (case parent_QMainWindow g c of
        Some (mw, mbar) \<Rightarrow> length (filter (\<lambda>ac. mtext ac = L) mbar)
      | None \<Rightarrow> 0)"


section \<open>Example states\<close>

text \<open>A property that is plain storage: its setter keeps the value it is given.\<close>

definition stored :: "qobject \<Rightarrow> 'a \<Rightarrow> 'a" where
  "stored ob v = v"

definition no_enum :: qmetaenum where
  "no_enum = \<lparr>scope = [], keys = []\<rparr>"

text \<open>Properties a console has from \<^verbatim>\<open>QPlainTextEdit\<close> and \<^verbatim>\<open>QWidget\<close>; the setter of
  \<open>maximumWidth\<close> bounds the value by 0 and 16777215. And an enumeration with two names for
  one value.\<close>

definition readOnly :: qmetaproperty where
  "readOnly = \<lparr>pname = ''readOnly'', ptype = QVariant_Bool, isEnumType = False,
      isFlagType = False, enumerator = no_enum, isWritable = True,
      set_int = stored, set_string = stored, set_double = stored\<rparr>"

definition maximumBlockCount :: qmetaproperty where
  "maximumBlockCount = \<lparr>pname = ''maximumBlockCount'', ptype = QVariant_Int,
      isEnumType = False, isFlagType = False, enumerator = no_enum, isWritable = True,
      set_int = stored, set_string = stored, set_double = stored\<rparr>"

definition maximumWidth :: qmetaproperty where
  "maximumWidth = \<lparr>pname = ''maximumWidth'', ptype = QVariant_Int,
      isEnumType = False, isFlagType = False, enumerator = no_enum, isWritable = True,
      set_int = (\<lambda>ob v. max 0 (min v 16777215)), set_string = stored,
      set_double = stored\<rparr>"

definition plainText :: qmetaproperty where
  "plainText = \<lparr>pname = ''plainText'', ptype = QVariant_String,
      isEnumType = False, isFlagType = False, enumerator = no_enum, isWritable = True,
      set_int = stored, set_string = stored, set_double = stored\<rparr>"

definition lineWrapMode :: qmetaproperty where
  "lineWrapMode = \<lparr>pname = ''lineWrapMode'', ptype = QVariant_Int, isEnumType = True,
      isFlagType = False,
      enumerator = \<lparr>scope = ''QPlainTextEdit'',
                     keys = [(''NoWrap'', 0), (''WidgetWidth'', 1)]\<rparr>,
      isWritable = True, set_int = stored, set_string = stored, set_double = stored\<rparr>"

definition textInteractionFlags :: qmetaproperty where
  "textInteractionFlags = \<lparr>pname = ''textInteractionFlags'', ptype = QVariant_Int,
      isEnumType = True, isFlagType = True,
      enumerator = \<lparr>scope = ''Qt'',
        keys = [(''NoTextInteraction'', 0), (''TextSelectableByMouse'', 1),
          (''TextSelectableByKeyboard'', 2), (''LinksAccessibleByMouse'', 4),
          (''LinksAccessibleByKeyboard'', 8), (''TextEditable'', 16)]\<rparr>,
      isWritable = True, set_int = stored, set_string = stored, set_double = stored\<rparr>"

definition two_names :: qmetaproperty where
  "two_names = \<lparr>pname = ''mode'', ptype = QVariant_Int, isEnumType = True,
      isFlagType = False,
      enumerator = \<lparr>scope = ''ConsoleEdit'',
                     keys = [(''Off'', 0), (''None'', 0), (''On'', 1)]\<rparr>,
      isWritable = True, set_int = stored, set_string = stored, set_double = stored\<rparr>"

definition cells0 :: qobject where
  "cells0 = \<lparr>bools = (\<lambda>n. False), ints = (\<lambda>n. 0), uints = (\<lambda>n. 0),
             strings = (\<lambda>n. []), doubles = (\<lambda>n. 0)\<rparr>"

definition monospace :: qfont where
  "monospace = \<lparr>family = ''Monospace'', cell_width = 8, cell_height = 16\<rparr>"

definition demo_console :: ConsoleEdit where
  "demo_console = \<lparr>thread = 1, font = monospace, history = [], document = [],
     selection = (0, 0),
     metaObject = [readOnly, maximumBlockCount, maximumWidth, plainText, lineWrapMode,
                   textInteractionFlags],
     cells = cells0\<rparr>"

definition plain_widget :: qwidget where
  "plain_widget = \<lparr>parentWidget = None, cls = QWidgetC, windowTitle = [], width = 0,
     height = 0, calls = []\<rparr>"

definition open_item :: qaction where
  "open_item = \<lparr>atext = ''Open'', toolTip = ''win_menu:open'', isSeparator = False\<rparr>"

text \<open>The GUI of \<^verbatim>\<open>runDemo\<close>: a main window (widget 2) with a menu \<open>File\<close>, framing one
  console (widget 3) that thread 1 owns.\<close>

definition demo_gui :: gui where
  "demo_gui = \<lparr>topLevelWidgets = [WNode 2 [WNode 3 []]],
     objects = (\<lambda>p. plain_widget)
       (2 := \<lparr>parentWidget = None,
              cls = QMainWindowC [\<lparr>mtext = ''File'', menu = Some [open_item]\<rparr>],
              windowTitle = ''pqConsole'', width = 800, height = 600, calls = []\<rparr>,
        3 := \<lparr>parentWidget = Some 2, cls = ConsoleEditC demo_console, windowTitle = [],
              width = 800, height = 570, calls = []\<rparr>),
     clipboard = [], quit = False, preferences_console_font = monospace, qDebug = [],
     swipl_ios = []\<rparr>"

text \<open>A GUI with no widget, and one whose console is a top-level widget of its own.\<close>

definition no_gui :: gui where
  "no_gui = \<lparr>topLevelWidgets = [], objects = (\<lambda>p. plain_widget), clipboard = [],
     quit = False, preferences_console_font = monospace, qDebug = [], swipl_ios = []\<rparr>"

definition unframed_gui :: gui where
  "unframed_gui = \<lparr>topLevelWidgets = [WNode 3 []],
     objects = (\<lambda>p. plain_widget)
       (3 := \<lparr>parentWidget = None, cls = ConsoleEditC demo_console, windowTitle = [],
              width = 800, height = 570, calls = []\<rparr>),
     clipboard = [], quit = False, preferences_console_font = monospace, qDebug = [],
     swipl_ios = []\<rparr>"

section \<open>Lemmas\<close>

subsection \<open>The console locator\<close>

lemma search_stack_Some: "search_stack match s = Some p \<Longrightarrow> match p"
  by (induction match s rule: search_stack.induct) (auto split: if_splits)

lemma search_widget_Some: "search_widget match ts = Some p \<Longrightarrow> match p"
  by (induction ts) (auto split: option.splits dest: search_stack_Some)

lemma console_by_thread_Some:
  "console_by_thread g thid = Some (c, ce) \<Longrightarrow>
   as_ConsoleEdit g c = Some ce \<and> match_thread ce thid"
  by (auto simp: console_by_thread_def split: option.splits dest!: search_widget_Some)

lemma console_peek_first_cong:
  "topLevelWidgets g' = topLevelWidgets g \<Longrightarrow> as_ConsoleEdit g' = as_ConsoleEdit g \<Longrightarrow>
   console_peek_first g' = console_peek_first g"
  by (simp add: console_peek_first_def cong: option.case_cong)

lemma console_by_thread_cong:
  "topLevelWidgets g' = topLevelWidgets g \<Longrightarrow> as_ConsoleEdit g' = as_ConsoleEdit g \<Longrightarrow>
   console_by_thread g' thid = console_by_thread g thid"
  by (simp add: console_by_thread_def cong: option.case_cong)

lemma after_qDebug:
  "console_by_thread (g\<lparr>qDebug := d\<rparr>) thid = console_by_thread g thid"
  "parent_QMainWindow (g\<lparr>qDebug := d\<rparr>) c = parent_QMainWindow g c"
  by (rule console_by_thread_cong)
     (simp_all add: as_ConsoleEdit_def fun_eq_iff parent_QMainWindow_def
               cong: option.case_cong)

lemma peek_after_qDebug: "console_peek_first (g\<lparr>qDebug := d\<rparr>) = console_peek_first g"
  by (rule console_peek_first_cong) (simp_all add: as_ConsoleEdit_def fun_eq_iff)

lemma topLevelWidgets_set_menuBar [simp]:
  "topLevelWidgets (set_menuBar mw mbar' g) = topLevelWidgets g"
  by (simp add: set_menuBar_def)

lemma as_ConsoleEdit_set_menuBar:
  "parent_QMainWindow g c = Some (mw, mbar) \<Longrightarrow>
   as_ConsoleEdit (set_menuBar mw mbar' g) = as_ConsoleEdit g"
  by (rule ext)
     (auto simp: as_ConsoleEdit_def set_menuBar_def parent_QMainWindow_def
           split: option.splits qclass.splits)

lemma parent_QMainWindow_set_menuBar:
  "parent_QMainWindow g c = Some (mw, mbar) \<Longrightarrow>
   parent_QMainWindow (set_menuBar mw mbar' g) c = Some (mw, mbar')"
  by (auto simp: set_menuBar_def parent_QMainWindow_def split: option.splits qclass.splits)

lemma after_set_menuBar:
  assumes "console_by_thread g thid = Some (c, ce)" and "parent_QMainWindow g c = Some (mw, mbar)"
  shows "console_by_thread (set_menuBar mw mbar' g) thid = Some (c, ce)"
proof -
  have "console_by_thread (set_menuBar mw mbar' g) thid = console_by_thread g thid"
    by (rule console_by_thread_cong)
       (simp_all add: as_ConsoleEdit_set_menuBar[OF assms(2)])
  with assms(1) show ?thesis by simp
qed

subsection \<open>The property bridge\<close>

lemma split_scope_parts:
  "split_scope a = (sc, k) \<Longrightarrow> a = k \<or> a = sc @ ''::'' @ k"
proof -
  assume s: "split_scope a = (sc, k)"
  let ?P = "\<lambda>ch. ch \<noteq> CHR '':''"
  show ?thesis
  proof (cases "\<exists>c1 rest. dropWhile ?P (rev a) = c1 # CHR '':'' # rest")
    case True
    then obtain c1 rest where d: "dropWhile ?P (rev a) = c1 # CHR '':'' # rest" by blast
    then have c1: "c1 = CHR '':''"
      by (auto simp: dropWhile_eq_Cons_conv)
    from s d have sc: "sc = rev rest" and k: "k = rev (takeWhile ?P (rev a))"
      by (simp_all add: split_scope_def)
    have "rev a = takeWhile ?P (rev a) @ dropWhile ?P (rev a)" by simp
    then have "rev a = takeWhile ?P (rev a) @ CHR '':'' # CHR '':'' # rest"
      using d c1 by simp
    then have "rev (rev a) = rev (takeWhile ?P (rev a) @ CHR '':'' # CHR '':'' # rest)"
      by (rule arg_cong)
    then have "a = rev rest @ ''::'' @ rev (takeWhile ?P (rev a))"
      by simp
    with sc k show ?thesis by simp
  next
    case False
    with s have "k = a"
      by (auto simp: split_scope_def split: list.splits if_splits)
    then show ?thesis by simp
  qed
qed

lemma keyToValue_known: "keyToValue e a \<noteq> - 1 \<Longrightarrow> enum_name e a"
proof -
  assume v: "keyToValue e a \<noteq> - 1"
  obtain sc k where s: "split_scope a = (sc, k)" by (cases "split_scope a")
  from v s have sc: "sc = [] \<or> sc = scope e" and k: "map_of (keys e) k \<noteq> None"
    by (auto simp: keyToValue_def split: if_splits option.splits)
  from k have "k \<in> fst ` set (keys e)"
    by (simp add: map_of_eq_None_iff)
  moreover from split_scope_parts[OF s] sc
  have "a = k \<or> a = ''::'' @ k \<or> a = scope e @ ''::'' @ k" by auto
  ultimately show ?thesis unfolding enum_name_def by blast
qed

lemma keyToValue_unknown: "\<not> enum_name e a \<Longrightarrow> keyToValue e a = - 1"
  using keyToValue_known[of e a] by blast

lemma unify_mismatch:
  assumes "mismatch p v"
  shows "unify nd p ob v = (Inl type_mismatch, ob)
       \<or> unify nd p ob v = (Inl (AssertFailure ''!p.isFlagType()''), ob)"
proof (cases v)
  case PL_VARIABLE
  with assms show ?thesis by (simp add: mismatch_def)
next
  case (PL_ATOM a)
  with assms show ?thesis
    by (cases "ptype p")
       (auto simp: mismatch_def declared_kind_def unify_atom_enum_def keyToValue_unknown
             split: if_splits)
next
  case (PL_INTEGER n)
  with assms show ?thesis
    by (cases "ptype p") (auto simp: mismatch_def declared_kind_def split: if_splits)
next
  case (PL_FLOAT d)
  with assms show ?thesis
    by (cases "ptype p") (auto simp: mismatch_def declared_kind_def split: if_splits)
next
  case (PL_STRING s)
  then show ?thesis by simp
next
  case (PL_TERM f args)
  then show ?thesis by simp
qed

lemma unify_mismatch_no_flag:
  assumes "mismatch p v" and "Q_ASSERT_not_flag nd p"
  shows "unify nd p ob v = (Inl type_mismatch, ob)"
proof (cases v)
  case PL_VARIABLE
  with assms show ?thesis by (simp add: mismatch_def)
next
  case (PL_ATOM a)
  with assms show ?thesis
    by (cases "ptype p")
       (auto simp: mismatch_def declared_kind_def unify_atom_enum_def keyToValue_unknown
             split: if_splits)
next
  case (PL_INTEGER n)
  with assms show ?thesis
    by (cases "ptype p") (auto simp: mismatch_def declared_kind_def split: if_splits)
next
  case (PL_FLOAT d)
  with assms show ?thesis
    by (cases "ptype p") (auto simp: mismatch_def declared_kind_def split: if_splits)
next
  case (PL_STRING s)
  then show ?thesis by simp
next
  case (PL_TERM f args)
  then show ?thesis by simp
qed

lemma unify_raised:
  assumes "Q_ASSERT_not_flag nd p" and "unify nd p ob v = (Inl e, ob')"
  shows "raised e"
proof (cases v)
  case PL_VARIABLE
  with assms show ?thesis
    by (cases "ptype p") (auto simp: type_mismatch_def split: if_splits option.splits)
next
  case (PL_ATOM a)
  with assms show ?thesis
    by (auto simp: type_mismatch_def unify_atom_enum_def Let_def
        split: if_splits option.splits)
next
  case (PL_INTEGER n)
  with assms show ?thesis
    by (auto simp: type_mismatch_def to_qint32_def
        split: if_splits option.splits sum.splits)
next
  case (PL_FLOAT d)
  with assms show ?thesis
    by (auto simp: type_mismatch_def split: if_splits option.splits)
next
  case (PL_STRING s)
  with assms show ?thesis by (auto simp: type_mismatch_def)
next
  case (PL_TERM f args)
  with assms show ?thesis by (auto simp: type_mismatch_def)
qed

lemma arg_raised: "arg t i = Inl e \<Longrightarrow> raised e"
  by (cases "(t, i)" rule: arg.cases) (auto split: if_splits)

lemma indexOfProperty_in: "indexOfProperty ps nm = Some p \<Longrightarrow> p \<in> set ps"
  by (auto simp: indexOfProperty_def find_Some_iff)

lemma console_settings_step:
  "console_settings_loop nd ce (PL_TERM nm [v] # opts) =
     (case indexOfProperty (metaObject ce) nm of
        Some p \<Rightarrow>
          (case unify nd p (cells ce) v of
             (Inl e, ob) \<Rightarrow> (Inl e, ce\<lparr>cells := ob\<rparr>)
           | (Inr v', ob) \<Rightarrow>
               (case console_settings_loop nd (ce\<lparr>cells := ob\<rparr>) opts of
                  (Inl e, ce') \<Rightarrow> (Inl e, ce')
                | (Inr vs, ce') \<Rightarrow> (Inr (v' # vs), ce')))
      | None \<Rightarrow> (Inl (PlException (A ''property not found'')), ce))"
  by (simp add: arity_def name_def split: option.splits)

lemma console_settings_loop_metaObject:
  "console_settings_loop nd ce opts = (r, ce') \<Longrightarrow> metaObject ce' = metaObject ce"
proof (induction opts arbitrary: ce r ce')
  case Nil
  then show ?case by simp
next
  case (Cons opt opts)
  have rec: "metaObject x = metaObject ce"
    if "console_settings_loop nd (ce\<lparr>cells := ob\<rparr>) opts = (r', x)" for ob r' x
    using Cons.IH[OF that] by simp
  from Cons.prems show ?case
    by (auto split: sum.splits option.splits prod.splits if_splits dest: rec)
qed

lemma console_settings_loop_raised:
  assumes "\<forall>p\<in>set (metaObject ce). Q_ASSERT_not_flag nd p"
    and "console_settings_loop nd ce opts = (Inl e, ce')"
  shows "raised e"
  using assms
proof (induction opts arbitrary: ce)
  case Nil
  then show ?case by simp
next
  case (Cons opt opts)
  have rec: "raised e"
    if "console_settings_loop nd (ce\<lparr>cells := ob\<rparr>) opts = (Inl e, ce')" for ob
    using Cons.IH[OF _ that] Cons.prems(1) by simp
  have un: "raised e" if "indexOfProperty (metaObject ce) nm = Some p"
    and "unify nd p (cells ce) v = (Inl e, ob)" for nm p v ob
    using unify_raised[OF _ that(2)] indexOfProperty_in[OF that(1)] Cons.prems(1) by blast
  from Cons.prems(2) show ?case
    by (auto simp: arity_def name_def
        split: sum.splits option.splits prod.splits if_splits dest: rec un arg_raised)
qed

lemma console_settings_loop_append:
  "console_settings_loop nd ce (xs @ ys) =
     (case console_settings_loop nd ce xs of
        (Inl e, ce') \<Rightarrow> (Inl e, ce')
      | (Inr vs, ce') \<Rightarrow>
          (case console_settings_loop nd ce' ys of
             (Inl e, ce'') \<Rightarrow> (Inl e, ce'')
           | (Inr ws, ce'') \<Rightarrow> (Inr (vs @ ws), ce'')))"
  by (induction xs arbitrary: ce)
     (auto split: sum.splits option.splits prod.splits)

lemma loop_mismatch:
  "list_ex (mismatched_option (metaObject ce)) opts \<Longrightarrow>
   isl (fst (console_settings_loop nd ce opts))"
proof (induction opts arbitrary: ce)
  case Nil
  then show ?case by simp
next
  case (Cons opt opts)
  show ?case
  proof (cases "mismatched_option (metaObject ce) opt")
    case True
    then obtain nm v p where o: "opt = PL_TERM nm [v]"
      and p: "indexOfProperty (metaObject ce) nm = Some p" and m: "mismatch p v"
      by (cases "(metaObject ce, opt)" rule: mismatched_option.cases)
         (auto split: option.splits)
    from unify_mismatch[OF m, of nd "cells ce"] show ?thesis
      by (auto simp: o p arity_def name_def)
  next
    case False
    with Cons.prems have "list_ex (mismatched_option (metaObject ce)) opts"
      by simp
    then have rest: "\<And>ob. isl (fst (console_settings_loop nd (ce\<lparr>cells := ob\<rparr>) opts))"
      by (simp add: Cons.IH)
    have no: "console_settings_loop nd (ce\<lparr>cells := ob\<rparr>) opts \<noteq> (Inr vs, ce')" for ob vs ce'
      using rest[of ob] by auto
    show ?thesis
      by (auto simp: no split: sum.splits option.splits prod.splits)
  qed
qed

subsection \<open>The options of \<^verbatim>\<open>win_window_pos\<close>\<close>

lemma name_arity_2: "name_arity opt = Some (n, 2) \<Longrightarrow> \<exists>a b. opt = PL_TERM n [a, b]"
  by (cases opt) (auto simp: length_Suc_conv numeral_2_eq_2)

lemma name_arity_1: "name_arity opt = Some (n, Suc 0) \<Longrightarrow> \<exists>a. opt = PL_TERM n [a]"
  by (cases opt) (auto simp: length_Suc_conv)

lemma option_known:
  assumes "known_option opt" and "args_convert opt"
  shows "\<exists>w'. window_pos_option c w opt = (Inr True, w') \<and> parentWidget w' = parentWidget w
               \<and> cls w' = cls w"
proof -
  from assms(1) consider
      "name_arity opt = Some (''size'', 2)" | "name_arity opt = Some (''position'', 2)"
    | "name_arity opt = Some (''zorder'', 1)" | "name_arity opt = Some (''show'', 1)"
    | "name_arity opt = Some (''activate'', 0)"
    by (auto simp: known_option_def)
  then show ?thesis
  proof cases
    case 1
    then obtain a b where "opt = PL_TERM ''size'' [a, b]"
      by (auto dest!: name_arity_2)
    with assms(2) show ?thesis
      by (auto simp: window_pos_option_def arity_def name_def two_longs_def long_arg_def
          to_long_def call_def)
  next
    case 2
    then obtain a b where "opt = PL_TERM ''position'' [a, b]"
      by (auto dest!: name_arity_2)
    with assms(2) show ?thesis
      by (auto simp: window_pos_option_def arity_def name_def two_longs_def long_arg_def
          to_long_def call_def)
  next
    case 3
    then show ?thesis
      by (auto simp: window_pos_option_def arity_def name_def)
  next
    case 4
    then obtain a where "opt = PL_TERM ''show'' [a]"
      by (auto dest!: name_arity_1)
    with assms(2) show ?thesis
      by (auto simp: window_pos_option_def arity_def name_def call_def)
  next
    case 5
    then show ?thesis
      by (auto simp: window_pos_option_def arity_def name_def call_def)
  qed
qed

lemma option_unknown:
  assumes "\<not> known_option opt"
  shows "window_pos_option c w opt =
           (if name_arity opt = None then Inl (PlTypeError ''compound'' opt) else Inr False, w)"
proof (cases "name_arity opt")
  case None
  then show ?thesis by (simp add: window_pos_option_def arity_def)
next
  case (Some na)
  obtain n a where na: "na = (n, a)" by (cases na)
  from assms Some na have
    "(a, n) \<noteq> (2, ''size'')" "(a, n) \<noteq> (2, ''position'')" "(a, n) \<noteq> (1, ''zorder'')"
    "(a, n) \<noteq> (1, ''show'')" "(a, n) \<noteq> (0, ''activate'')"
    by (auto simp: known_option_def)
  with Some na show ?thesis
    by (auto simp: window_pos_option_def arity_def name_def)
qed

lemma option_True_known:
  "window_pos_option c w opt = (Inr True, w') \<Longrightarrow> known_option opt"
  by (rule ccontr) (simp add: option_unknown split: if_splits)

lemma loop_all_known:
  "\<forall>opt\<in>set options. known_option opt \<and> args_convert opt \<Longrightarrow>
   \<exists>w'. win_window_pos_loop c w options = (Inr True, w')"
proof (induction options arbitrary: w)
  case Nil
  then show ?case by simp
next
  case (Cons opt options)
  then obtain w1 where "window_pos_option c w opt = (Inr True, w1)"
    using option_known[of opt c w] by auto
  with Cons show ?case by simp
qed

lemma loop_unknown:
  "\<exists>opt\<in>set options. \<not> known_option opt \<Longrightarrow>
   win_window_pos_loop c w options \<noteq> (Inr True, w')"
proof (induction options arbitrary: w)
  case Nil
  then show ?case by simp
next
  case (Cons opt options)
  show ?case
  proof (cases "window_pos_option c w opt")
    case (Pair r w1)
    show ?thesis
    proof (cases "r = Inr True")
      case True
      with Pair have "known_option opt" by (auto dest: option_True_known)
      with Cons.prems have "\<exists>opt\<in>set options. \<not> known_option opt" by simp
      from Cons.IH[OF this] Pair True show ?thesis by simp
    next
      case False
      with Pair show ?thesis by (auto split: sum.splits bool.splits)
    qed
  qed
qed

lemma loop_append:
  "win_window_pos_loop c w (xs @ ys) =
     (case win_window_pos_loop c w xs of
        (Inr True, w') \<Rightarrow> win_window_pos_loop c w' ys
      | (r, w') \<Rightarrow> (r, w'))"
  by (induction xs arbitrary: w) (auto split: prod.splits sum.splits bool.splits)

lemma loop_unknown_FALSE:
  assumes "\<forall>opt\<in>set options. name_arity opt \<noteq> None \<and> args_convert opt"
    and "\<exists>opt\<in>set options. \<not> known_option opt"
  shows "fst (win_window_pos_loop c w options) = Inr False"
  using assms
proof (induction options arbitrary: w)
  case Nil
  then show ?case by simp
next
  case (Cons opt options)
  show ?case
  proof (cases "known_option opt")
    case True
    with Cons.prems obtain w1 where "window_pos_option c w opt = (Inr True, w1)"
      using option_known[of opt c w] by auto
    with Cons True show ?thesis by simp
  next
    case False
    with Cons.prems show ?thesis by (simp add: option_unknown)
  qed
qed

subsection \<open>Menus\<close>

lemma first_index_None: "first_index P xs = None \<longleftrightarrow> (\<forall>x\<in>set xs. \<not> P x)"
  by (induction xs) auto

lemma first_index_SomeD: "first_index P xs = Some i \<Longrightarrow> \<exists>x\<in>set xs. P x"
  using first_index_None[of P xs] by auto

lemma filter_insert_before:
  "filter P (insert_before i x xs) =
     filter P (take i xs) @ (if P x then [x] else []) @ filter P (drop i xs)"
  by (simp add: insert_before_def)

lemma length_filter_insert_before:
  "length (filter P (insert_before i x xs)) = length (filter P xs) + (if P x then 1 else 0)"
proof -
  have "length (filter P xs) = length (filter P (take i xs @ drop i xs))" by simp
  also have "\<dots> = length (filter P (take i xs)) + length (filter P (drop i xs))"
    by (simp only: filter_append length_append)
  finally show ?thesis by (simp add: filter_insert_before)
qed

lemma filter_none: "first_index P xs = None \<Longrightarrow> filter P xs = []"
  by (simp add: first_index_None filter_empty_conv)

lemma first_index_present: "x \<in> set xs \<Longrightarrow> P x \<Longrightarrow> first_index P xs \<noteq> None"
  by (auto simp: first_index_None)

lemma insert_menu_again:
  "insert_menu L B mbar = Some mbar1 \<Longrightarrow> insert_menu L B mbar1 = Some mbar1"
proof -
  assume a: "insert_menu L B mbar = Some mbar1"
  have "first_index (\<lambda>ac. mtext ac = L) mbar1 \<noteq> None"
  proof (cases "first_index (\<lambda>ac. mtext ac = L) mbar")
    case (Some i)
    with a show ?thesis by (auto simp: insert_menu_def)
  next
    case None
    with a have "QMenu L \<in> set mbar1"
      by (auto simp: insert_menu_def insert_before_def split: option.splits if_splits)
    then show ?thesis by (rule first_index_present) (simp add: QMenu_def)
  qed
  then show ?thesis by (auto simp: insert_menu_def)
qed

lemma insert_menu_count:
  assumes "insert_menu L B mbar = Some mbar1"
  shows "length (filter (\<lambda>ac. mtext ac = L) mbar1) =
     (if 0 < length (filter (\<lambda>ac. mtext ac = L) mbar)
      then length (filter (\<lambda>ac. mtext ac = L) mbar) else 1)"
proof (cases "first_index (\<lambda>ac. mtext ac = L) mbar")
  case (Some i)
  then have "filter (\<lambda>ac. mtext ac = L) mbar \<noteq> []"
    by (auto simp: filter_empty_conv dest!: first_index_SomeD)
  moreover from Some assms have "mbar1 = mbar" by (simp add: insert_menu_def)
  ultimately show ?thesis by simp
next
  case None
  then have "filter (\<lambda>ac. mtext ac = L) mbar = []" by (rule filter_none)
  with None assms show ?thesis
    by (auto simp: insert_menu_def length_filter_insert_before QMenu_def
        split: option.splits if_splits)
qed

lemma insert_menu_None:
  "insert_menu L B mbar = None \<longleftrightarrow>
     (\<forall>ac\<in>set mbar. mtext ac \<noteq> L) \<and> B \<noteq> ''-'' \<and> B \<notin> mtext ` set mbar"
  by (auto simp: insert_menu_def first_index_None split: option.splits
      dest!: first_index_SomeD)



subsection \<open>\<^verbatim>\<open>win_window_pos\<close> on a list of options and on its parts\<close>

lemma window_pos_option_preserves:
  "window_pos_option c w opt = (r, w') \<Longrightarrow> parentWidget w' = parentWidget w \<and> cls w' = cls w"
  by (auto simp: window_pos_option_def call_def split: sum.splits if_splits prod.splits)

lemma win_window_pos_loop_preserves:
  "win_window_pos_loop c w options = (r, w') \<Longrightarrow>
   parentWidget w' = parentWidget w \<and> cls w' = cls w"
proof (induction options arbitrary: w)
  case Nil
  then show ?case by simp
next
  case (Cons opt options)
  obtain r1 w1 where s: "window_pos_option c w opt = (r1, w1)"
    by (cases "window_pos_option c w opt")
  note p = window_pos_option_preserves[OF s]
  show ?case
  proof (cases "r1 = Inr True")
    case True
    with Cons.prems s have "win_window_pos_loop c w1 options = (r, w')" by simp
    from Cons.IH[OF this] p show ?thesis by simp
  next
    case False
    with Cons.prems s have "w' = w1" by (auto split: sum.splits bool.splits)
    with p show ?thesis by simp
  qed
qed

lemma win_window_pos_sequence:
  assumes "win_window_pos g thid pre = (TRUE [], g')"
  shows "win_window_pos g thid (pre @ later) = win_window_pos g' thid later"
proof -
  from assms obtain c ce w w' where cb: "console_by_thread g thid = Some (c, ce)"
    and pw: "parentWidget (objects g c) = Some w"
    and lp: "win_window_pos_loop ce (objects g w) pre = (Inr True, w')"
    and g': "g' = g\<lparr>objects := (objects g)(w := w')\<rparr>"
    by (auto simp: win_window_pos_def split: option.splits prod.splits sum.splits)
  note keep = win_window_pos_loop_preserves[OF lp]
  have "as_ConsoleEdit g' = as_ConsoleEdit g"
    by (rule ext) (simp add: as_ConsoleEdit_def g' keep)
  then have "console_by_thread g' thid = console_by_thread g thid"
    by (intro console_by_thread_cong) (simp_all add: g')
  with cb have cb': "console_by_thread g' thid = Some (c, ce)" by simp
  have pw': "parentWidget (objects g' c) = Some w"
    using pw keep by (auto simp: g')
  have w': "objects g' w = w'" by (simp add: g')
  have upd: "g'\<lparr>objects := (objects g')(w := x)\<rparr> = g\<lparr>objects := (objects g)(w := x)\<rparr>" for x
    by (simp add: g')
  show ?thesis
    by (simp add: win_window_pos_def cb pw cb' pw' w' upd loop_append lp
        split: prod.splits sum.splits)
qed

subsection \<open>The example states\<close>

lemma demo_by_thread: "console_by_thread demo_gui 1 = Some (3, demo_console)"
  by (simp add: console_by_thread_def demo_gui_def as_ConsoleEdit_def match_thread_def
      demo_console_def plain_widget_def)

lemma demo_no_thread_7: "console_by_thread demo_gui 7 = None"
  by (simp add: console_by_thread_def demo_gui_def as_ConsoleEdit_def match_thread_def
      demo_console_def plain_widget_def)

lemma demo_peek_first: "console_peek_first demo_gui = Some (3, demo_console)"
  by (simp add: console_peek_first_def demo_gui_def as_ConsoleEdit_def plain_widget_def)

lemma demo_main_window:
  "parent_QMainWindow demo_gui 3 = Some (2, [\<lparr>mtext = ''File'', menu = Some [open_item]\<rparr>])"
  by (simp add: parent_QMainWindow_def demo_gui_def)

lemma demo_parent: "parentWidget (objects demo_gui 3) = Some 2"
  by (simp add: demo_gui_def)

lemma unframed_by_thread: "console_by_thread unframed_gui 1 = Some (3, demo_console)"
  by (simp add: console_by_thread_def unframed_gui_def as_ConsoleEdit_def match_thread_def
      demo_console_def)

lemma no_gui_no_console: "console_peek_first no_gui = None" "console_by_thread no_gui 1 = None"
  by (simp_all add: console_peek_first_def console_by_thread_def no_gui_def)

section \<open>The claims\<close>

subsection \<open>C1: calls without a console\<close>

text \<open>
  C1, amended. When the calling thread owns no console, each of \<^verbatim>\<open>window_title\<close>,
  \<^verbatim>\<open>win_window_pos\<close>, \<^verbatim>\<open>win_has_menu\<close>, \<^verbatim>\<open>win_insert_menu\<close>, \<^verbatim>\<open>win_insert_menu_item\<close>,
  \<^verbatim>\<open>tty_clear\<close>, \<^verbatim>\<open>rl_add_history\<close>, \<^verbatim>\<open>$rl_history\<close>, \<^verbatim>\<open>tty_size\<close>, \<^verbatim>\<open>console_settings\<close>,
  \<^verbatim>\<open>getOpenFileName\<close>, \<^verbatim>\<open>getSaveFileName\<close>, \<^verbatim>\<open>select_font\<close>, \<^verbatim>\<open>quit_console\<close>, \<^verbatim>\<open>copy\<close> and
  \<^verbatim>\<open>paste\<close> answers \<^verbatim>\<open>FALSE\<close>, raises nothing and leaves the state as it was; and the
  console these calls find is a console whose thread marker is the calling thread's.
  \<^verbatim>\<open>win_open_console\<close> is different: it takes the first console of any thread (its answer
  does not depend on the calling thread), and when there is no console at all it throws
  the exception \<open>no ConsoleEdit available\<close>.
\<close>

theorem no_console_fails:
  "(console_by_thread g thid = None \<longrightarrow>
      window_title g thid New = (FALSE, g)
    \<and> win_window_pos g thid options = (FALSE, g)
    \<and> win_has_menu g thid = (FALSE, g)
    \<and> win_insert_menu g thid Label Before = (FALSE, g)
    \<and> win_insert_menu_item g thid Pulldown Label Before Goal = (FALSE, g)
    \<and> tty_clear g thid = (FALSE, g)
    \<and> rl_add_history g thid line = (FALSE, g)
    \<and> rl_history g thid = (FALSE, g)
    \<and> tty_size g thid = (FALSE, g)
    \<and> console_settings nd g thid opts = (FALSE, g)
    \<and> getOpenFileName dialog g thid Caption a2 Pattern = (FALSE, g)
    \<and> getSaveFileName dialog g thid Caption a2 Pattern = (FALSE, g)
    \<and> select_font getFont g thid = (FALSE, g)
    \<and> quit_console g thid = (FALSE, g)
    \<and> copy g thid = (FALSE, g)
    \<and> paste g thid = (FALSE, g))
 \<and> (\<forall>c ce. console_by_thread g thid = Some (c, ce) \<longrightarrow>
      as_ConsoleEdit g c = Some ce \<and> thread ce = thid)
 \<and> (console_peek_first g = None \<longrightarrow>
      win_open_console g thid Title a2 a3 a4
        = (Inl (PlException (A ''no ConsoleEdit available'')),
           g\<lparr>qDebug := qDebug g @ [[''win_open_console'']]\<rparr>))
 \<and> win_open_console g thid Title a2 a3 a4 = win_open_console g thid' Title a2 a3 a4"
proof -
  have open_none: "console_peek_first g = None \<longrightarrow>
      win_open_console g thid Title a2 a3 a4
        = (Inl (PlException (A ''no ConsoleEdit available'')),
           g\<lparr>qDebug := qDebug g @ [[''win_open_console'']]\<rparr>)"
    by (simp add: win_open_console_def peek_after_qDebug)
  have by_thread: "\<forall>c ce. console_by_thread g thid = Some (c, ce) \<longrightarrow>
      as_ConsoleEdit g c = Some ce \<and> thread ce = thid"
    using console_by_thread_Some[of g thid] by (simp add: match_thread_def)
  have same: "win_open_console g thid Title a2 a3 a4 = win_open_console g thid' Title a2 a3 a4"
    by (simp add: win_open_console_def)
  have fails: "console_by_thread g thid = None \<longrightarrow>
      window_title g thid New = (FALSE, g)
    \<and> win_window_pos g thid options = (FALSE, g)
    \<and> win_has_menu g thid = (FALSE, g)
    \<and> win_insert_menu g thid Label Before = (FALSE, g)
    \<and> win_insert_menu_item g thid Pulldown Label Before Goal = (FALSE, g)
    \<and> tty_clear g thid = (FALSE, g)
    \<and> rl_add_history g thid line = (FALSE, g)
    \<and> rl_history g thid = (FALSE, g)
    \<and> tty_size g thid = (FALSE, g)
    \<and> console_settings nd g thid opts = (FALSE, g)
    \<and> getOpenFileName dialog g thid Caption a2 Pattern = (FALSE, g)
    \<and> getSaveFileName dialog g thid Caption a2 Pattern = (FALSE, g)
    \<and> select_font getFont g thid = (FALSE, g)
    \<and> quit_console g thid = (FALSE, g)
    \<and> copy g thid = (FALSE, g)
    \<and> paste g thid = (FALSE, g)"
    by (simp add: window_title_def win_window_pos_def win_has_menu_def win_insert_menu_def
        win_insert_menu_item_def tty_clear_def rl_add_history_def rl_history_def tty_size_def
        console_settings_def getOpenFileName_def getSaveFileName_def file_dialog_def
        select_font_def quit_console_def copy_def paste_def)
  from fails by_thread open_none same show ?thesis by blast
qed

text \<open>Thread 7 owns no console of the demo: its calls fail. Thread 1 owns console 3. With
  no widget at all, \<^verbatim>\<open>win_open_console\<close> throws.\<close>

theorem no_console_fails_witness:
  "console_by_thread demo_gui 7 = None
 \<and> window_title demo_gui 7 ''t'' = (FALSE, demo_gui)
 \<and> tty_size demo_gui 7 = (FALSE, demo_gui)
 \<and> select_font (\<lambda>f. (True, f)) demo_gui 7 = (FALSE, demo_gui)
 \<and> console_settings False demo_gui 7 [A ''x''] = (FALSE, demo_gui)
 \<and> console_by_thread demo_gui 1 = Some (3, demo_console)
 \<and> as_ConsoleEdit demo_gui 3 = Some demo_console \<and> thread demo_console = 1
 \<and> console_peek_first no_gui = None
 \<and> fst (win_open_console no_gui 1 ''t'' PL_VARIABLE PL_VARIABLE PL_VARIABLE)
     = Inl (PlException (A ''no ConsoleEdit available''))"
  using no_console_fails[where g = demo_gui and thid = 7 and New = "''t''"
      and getFont = "\<lambda>f. (True, f)" and nd = False and opts = "[A ''x'']"]
    no_console_fails[where g = demo_gui and thid = 1]
    no_console_fails[where g = no_gui and thid = 1 and Title = "''t''" and ?a2.0 = PL_VARIABLE
      and ?a3.0 = PL_VARIABLE and ?a4.0 = PL_VARIABLE]
  by (simp add: demo_no_thread_7 demo_by_thread no_gui_no_console)

text \<open>C1 as stated fails for \<^verbatim>\<open>win_open_console\<close>: with no console it raises an exception
  instead of failing, and for a thread that owns no console (thread 7 of the demo) it
  succeeds on the console of another thread.\<close>

theorem win_open_console_counterexample:
  "console_by_thread no_gui 1 = None
 \<and> fst (win_open_console no_gui 1 ''t'' PL_VARIABLE PL_VARIABLE PL_VARIABLE)
     = Inl (PlException (A ''no ConsoleEdit available''))
 \<and> console_by_thread demo_gui 7 = None
 \<and> fst (win_open_console demo_gui 7 ''t'' PL_VARIABLE PL_VARIABLE PL_VARIABLE)
     = TRUE [stream_term 0 ''in'', stream_term 0 ''out'', stream_term 0 ''err'']"
  by (simp add: no_gui_no_console demo_no_thread_7 win_open_console_def peek_after_qDebug
      demo_peek_first PL_unify_stream_def)
     (simp add: demo_gui_def no_gui_def)

subsection \<open>C2: a kind mismatch raises\<close>

text \<open>
  C2, amended. For a property that is not a flag-type enumeration, or in a build without
  assertions: a bound term whose kind mismatches the property's declared kind makes
  \<^verbatim>\<open>unify\<close> raise the exception \<open>property type mismatch\<close> and assign nothing, the cells
  of the object are as before. \<^verbatim>\<open>console_settings\<close> with such an option after options
  that went through ends in that exception, the console being as the options before have
  left it. And when no property of the console is a flag-type enumeration, or assertions
  are off, \<^verbatim>\<open>console_settings\<close> with such an option anywhere in its list ends in an
  exception raised to the caller, not in \<^verbatim>\<open>TRUE\<close> or \<^verbatim>\<open>FALSE\<close>.
\<close>

theorem kind_mismatch_raises:
  "(mismatch p v \<and> Q_ASSERT_not_flag nd p \<longrightarrow> unify nd p ob v = (Inl type_mismatch, ob))
 \<and> (console_by_thread g thid = Some (c, ce)
      \<and> console_settings_loop nd ce before = (Inr vs, ce')
      \<and> indexOfProperty (metaObject ce) nm = Some q
      \<and> mismatch q w \<and> Q_ASSERT_not_flag nd q \<longrightarrow>
    console_settings nd g thid (before @ PL_TERM nm [w] # rest)
      = (Inl type_mismatch, set_console c ce' g))
 \<and> (console_by_thread g thid = Some (c, ce)
      \<and> (\<forall>q\<in>set (metaObject ce). Q_ASSERT_not_flag nd q)
      \<and> list_ex (mismatched_option (metaObject ce)) opts \<longrightarrow>
    (\<exists>e. fst (console_settings nd g thid opts) = Inl e \<and> raised e))"
proof (intro conjI impI)
  assume "mismatch p v \<and> Q_ASSERT_not_flag nd p"
  then show "unify nd p ob v = (Inl type_mismatch, ob)"
    by (simp add: unify_mismatch_no_flag)
next
  assume a: "console_by_thread g thid = Some (c, ce)
      \<and> console_settings_loop nd ce before = (Inr vs, ce')
      \<and> indexOfProperty (metaObject ce) nm = Some q
      \<and> mismatch q w \<and> Q_ASSERT_not_flag nd q"
  then have m: "metaObject ce' = metaObject ce"
    using console_settings_loop_metaObject by blast
  from a have u: "unify nd q (cells ce') w = (Inl type_mismatch, cells ce')"
    by (simp add: unify_mismatch_no_flag)
  have "console_settings_loop nd ce' (PL_TERM nm [w] # rest) = (Inl type_mismatch, ce')"
    using a by (simp only: console_settings_step m) (simp add: u)
  with a have "console_settings_loop nd ce (before @ PL_TERM nm [w] # rest)
                 = (Inl type_mismatch, ce')"
    by (simp add: console_settings_loop_append)
  with a show "console_settings nd g thid (before @ PL_TERM nm [w] # rest)
                 = (Inl type_mismatch, set_console c ce' g)"
    by (simp add: console_settings_def)
next
  assume a: "console_by_thread g thid = Some (c, ce)
      \<and> (\<forall>q\<in>set (metaObject ce). Q_ASSERT_not_flag nd q)
      \<and> list_ex (mismatched_option (metaObject ce)) opts"
  then have "isl (fst (console_settings_loop nd ce opts))"
    by (simp add: loop_mismatch)
  then obtain e ce' where l: "console_settings_loop nd ce opts = (Inl e, ce')"
    by (cases "console_settings_loop nd ce opts") (auto simp: isl_def)
  with a have "raised e"
    using console_settings_loop_raised by blast
  with a l show "\<exists>e. fst (console_settings nd g thid opts) = Inl e \<and> raised e"
    by (simp add: console_settings_def)
qed

text \<open>An atom for the integer \<open>maximumBlockCount\<close>; a name \<open>lineWrapMode\<close> does not have,
  and one of its names under the scope of another class. In the demo, the count of
  blocks set before the mismatched option stays set.\<close>

theorem kind_mismatch_raises_witness:
  "mismatch maximumBlockCount (A ''abc'')
 \<and> unify False maximumBlockCount cells0 (A ''abc'') = (Inl type_mismatch, cells0)
 \<and> mismatch lineWrapMode (A ''Sideways'')
 \<and> unify False lineWrapMode cells0 (A ''Sideways'') = (Inl type_mismatch, cells0)
 \<and> mismatch lineWrapMode (A ''QTextEdit::NoWrap'')
 \<and> unify False lineWrapMode cells0 (A ''QTextEdit::NoWrap'') = (Inl type_mismatch, cells0)
 \<and> console_settings False demo_gui 1
      [PL_TERM ''maximumBlockCount'' [PL_INTEGER 500],
       PL_TERM ''lineWrapMode'' [A ''Sideways''],
       PL_TERM ''readOnly'' [PL_VARIABLE]]
    = (Inl type_mismatch,
       set_console 3
         (demo_console\<lparr>cells := cells0\<lparr>ints := (ints cells0)(''maximumBlockCount'' := 500)\<rparr>\<rparr>)
         demo_gui)
 \<and> (\<exists>e. fst (console_settings True demo_gui 1
              [PL_TERM ''textInteractionFlags'' [PL_VARIABLE],
               PL_TERM ''maximumBlockCount'' [A ''abc'']]) = Inl e \<and> raised e)"
proof -
  have m1: "mismatch maximumBlockCount (A ''abc'')"
    by (simp add: mismatch_def declared_kind_def maximumBlockCount_def)
  have m2: "mismatch lineWrapMode (A ''Sideways'')"
    by (simp add: mismatch_def declared_kind_def lineWrapMode_def enum_name_def)
  have m3: "mismatch lineWrapMode (A ''QTextEdit::NoWrap'')"
    by (simp add: mismatch_def declared_kind_def lineWrapMode_def enum_name_def)
  have q1: "Q_ASSERT_not_flag False maximumBlockCount"
    by (simp add: Q_ASSERT_not_flag_def maximumBlockCount_def)
  have q2: "Q_ASSERT_not_flag False lineWrapMode"
    by (simp add: Q_ASSERT_not_flag_def lineWrapMode_def)
  have b: "console_settings_loop False demo_console
             [PL_TERM ''maximumBlockCount'' [PL_INTEGER 500]]
           = (Inr [PL_INTEGER 500],
              demo_console\<lparr>cells := cells0\<lparr>ints := (ints cells0)(''maximumBlockCount'' := 500)\<rparr>\<rparr>)"
    by (simp only: console_settings_step)
       (simp add: demo_console_def indexOfProperty_def readOnly_def maximumBlockCount_def
          to_qint32_def fits_def stored_def)
  have i: "indexOfProperty (metaObject demo_console) ''lineWrapMode'' = Some lineWrapMode"
    by (simp add: demo_console_def indexOfProperty_def readOnly_def maximumBlockCount_def
        maximumWidth_def plainText_def lineWrapMode_def)
  have a: "\<forall>q\<in>set (metaObject demo_console). Q_ASSERT_not_flag True q"
    by (simp add: Q_ASSERT_not_flag_def)
  have l: "list_ex (mismatched_option (metaObject demo_console))
      [PL_TERM ''textInteractionFlags'' [PL_VARIABLE],
       PL_TERM ''maximumBlockCount'' [A ''abc'']]"
    using m1
    by (simp add: demo_console_def indexOfProperty_def readOnly_def maximumBlockCount_def
        mismatch_def)
  have u1: "unify False maximumBlockCount cells0 (A ''abc'') = (Inl type_mismatch, cells0)"
    using m1 q1
      kind_mismatch_raises[where p = maximumBlockCount and v = "A ''abc''" and nd = False
        and ob = cells0, THEN conjunct1]
    by blast
  have u2: "unify False lineWrapMode cells0 (A ''Sideways'') = (Inl type_mismatch, cells0)"
    using m2 q2
      kind_mismatch_raises[where p = lineWrapMode and v = "A ''Sideways''" and nd = False
        and ob = cells0, THEN conjunct1]
    by blast
  have u3: "unify False lineWrapMode cells0 (A ''QTextEdit::NoWrap'')
              = (Inl type_mismatch, cells0)"
    using m3 q2
      kind_mismatch_raises[where p = lineWrapMode and v = "A ''QTextEdit::NoWrap''"
        and nd = False and ob = cells0, THEN conjunct1]
    by blast
  have "console_settings False demo_gui 1
          ([PL_TERM ''maximumBlockCount'' [PL_INTEGER 500]]
           @ PL_TERM ''lineWrapMode'' [A ''Sideways''] # [PL_TERM ''readOnly'' [PL_VARIABLE]])
        = (Inl type_mismatch,
           set_console 3
             (demo_console\<lparr>cells := cells0\<lparr>ints := (ints cells0)(''maximumBlockCount'' := 500)\<rparr>\<rparr>)
             demo_gui)"
    using demo_by_thread b i m2 q2
      kind_mismatch_raises[where g = demo_gui and thid = 1 and c = 3 and ce = demo_console
        and nd = False and before = "[PL_TERM ''maximumBlockCount'' [PL_INTEGER 500]]"
        and vs = "[PL_INTEGER 500]"
        and ce' = "demo_console\<lparr>cells := cells0\<lparr>ints := (ints cells0)(''maximumBlockCount'' := 500)\<rparr>\<rparr>"
        and nm = "''lineWrapMode''" and q = lineWrapMode and w = "A ''Sideways''"
        and rest = "[PL_TERM ''readOnly'' [PL_VARIABLE]]", THEN conjunct2, THEN conjunct1]
    by blast
  then have s1: "console_settings False demo_gui 1
          [PL_TERM ''maximumBlockCount'' [PL_INTEGER 500],
           PL_TERM ''lineWrapMode'' [A ''Sideways''], PL_TERM ''readOnly'' [PL_VARIABLE]]
        = (Inl type_mismatch,
           set_console 3
             (demo_console\<lparr>cells := cells0\<lparr>ints := (ints cells0)(''maximumBlockCount'' := 500)\<rparr>\<rparr>)
             demo_gui)"
    by simp
  have s2: "\<exists>e. fst (console_settings True demo_gui 1
              [PL_TERM ''textInteractionFlags'' [PL_VARIABLE],
               PL_TERM ''maximumBlockCount'' [A ''abc'']]) = Inl e \<and> raised e"
    using demo_by_thread a l
      kind_mismatch_raises[where g = demo_gui and thid = 1 and c = 3 and ce = demo_console
        and nd = True
        and opts = "[PL_TERM ''textInteractionFlags'' [PL_VARIABLE],
                     PL_TERM ''maximumBlockCount'' [A ''abc'']]",
        THEN conjunct2, THEN conjunct2]
    by blast
  from m1 m2 m3 u1 u2 u3 s1 s2 show ?thesis by blast
qed

text \<open>C2 as stated fails: \<open>Bogus\<close> is no name of the flag-type \<open>textInteractionFlags\<close>,
  and with assertions on the write ends at the assertion, which stops the process: no
  error is raised to the caller of \<^verbatim>\<open>unify\<close> or of \<^verbatim>\<open>console_settings\<close>.\<close>

theorem kind_mismatch_counterexample:
  "mismatch textInteractionFlags (A ''Bogus'')
 \<and> unify False textInteractionFlags cells0 (A ''Bogus'')
     = (Inl (AssertFailure ''!p.isFlagType()''), cells0)
 \<and> \<not> raised (AssertFailure ''!p.isFlagType()'')
 \<and> fst (console_settings False demo_gui 1 [PL_TERM ''textInteractionFlags'' [A ''Bogus'']])
     = Inl (AssertFailure ''!p.isFlagType()'')"
proof -
  have m: "mismatch textInteractionFlags (A ''Bogus'')"
    by (simp add: mismatch_def declared_kind_def textInteractionFlags_def enum_name_def)
  have u: "unify False textInteractionFlags cells0 (A ''Bogus'')
     = (Inl (AssertFailure ''!p.isFlagType()''), cells0)"
    by (simp add: textInteractionFlags_def unify_atom_enum_def Q_ASSERT_not_flag_def)
  have i: "indexOfProperty (metaObject demo_console) ''textInteractionFlags''
             = Some textInteractionFlags"
    by (simp add: demo_console_def indexOfProperty_def readOnly_def maximumBlockCount_def
        maximumWidth_def plainText_def lineWrapMode_def textInteractionFlags_def)
  have c: "cells demo_console = cells0" by (simp add: demo_console_def)
  have "console_settings_loop False demo_console [PL_TERM ''textInteractionFlags'' [A ''Bogus'']]
     = (Inl (AssertFailure ''!p.isFlagType()''), demo_console)"
    by (simp only: console_settings_step i c u option.case) (simp add: demo_console_def)
  then have "fst (console_settings False demo_gui 1
                    [PL_TERM ''textInteractionFlags'' [A ''Bogus'']])
     = Inl (AssertFailure ''!p.isFlagType()'')"
    by (simp add: console_settings_def demo_by_thread)
  with m u show ?thesis by simp
qed

subsection \<open>C3: writing a property and reading it back\<close>

text \<open>
  C3, amended. For a writable property whose setter keeps the value it is given, writing
  a value through the bridge and reading the property back returns the value written:
  when the property is an integer that is not an enumeration and the value is an integer
  that fits 32 bits; when the property is a string and the value is written as an atom;
  and when the property is an enumeration that is not a flag-type one and the value is a
  name that is the first key of its value, the value not being -1. Nothing is said here
  of boolean properties.
\<close>

theorem roundtrip_written:
  assumes "isWritable p"
  shows "(ptype p = QVariant_Int \<and> \<not> isEnumType p \<and> fits 32 n \<and> set_int p ob n = n \<longrightarrow>
            write_then_read nd p ob (PL_INTEGER n) = Inr (PL_INTEGER n))
       \<and> (ptype p = QVariant_String \<and> set_string p ob s = s \<longrightarrow>
            write_then_read nd p ob (A s) = Inr (A s))
       \<and> (ptype p = QVariant_Int \<and> isEnumType p \<and> \<not> isFlagType p
            \<and> first_key (enumerator p) k
            \<and> set_int p ob (keyToValue (enumerator p) k) = keyToValue (enumerator p) k \<longrightarrow>
            write_then_read nd p ob (A k) = Inr (A k))"
  using assms
  by (auto simp: write_then_read_def to_qint32_def unify_atom_enum_def first_key_def
      Q_ASSERT_not_flag_def)

text \<open>The count of blocks, the text, and the mode of wrapping of the demo.\<close>

theorem roundtrip_written_witness:
  "write_then_read False maximumBlockCount cells0 (PL_INTEGER 500) = Inr (PL_INTEGER 500)
 \<and> write_then_read False plainText cells0 (A ''hello'') = Inr (A ''hello'')
 \<and> write_then_read False lineWrapMode cells0 (A ''WidgetWidth'') = Inr (A ''WidgetWidth'')"
proof -
  have w: "isWritable maximumBlockCount" "isWritable lineWrapMode" "isWritable plainText"
    by (simp_all add: maximumBlockCount_def lineWrapMode_def plainText_def)
  have k: "first_key (enumerator lineWrapMode) ''WidgetWidth''"
    by (simp add: first_key_def lineWrapMode_def keyToValue_def split_scope_def
        valueToKey_def)
  from roundtrip_written[OF w(1), where n = 500 and nd = False and ob = cells0]
    roundtrip_written[OF w(3), where s = "''hello''" and nd = False and ob = cells0]
    roundtrip_written[OF w(2), where k = "''WidgetWidth''" and nd = False and ob = cells0]
    k
  show ?thesis
    by (simp add: maximumBlockCount_def lineWrapMode_def plainText_def fits_def stored_def)
qed

text \<open>C3 as stated fails: the atom \<open>true\<close> written to the boolean \<open>readOnly\<close> raises the
  type mismatch, and so does a string that is not an atom written to the string
  \<open>plainText\<close>; the second name of a value reads back as the first, and a name written
  with its scope reads back without it; an integer beyond 32 bits raises a type error;
  and \<open>maximumWidth\<close>, whose setter bounds the value, reads back 0 after -5 was
  written.\<close>

theorem roundtrip_counterexample:
  "write_then_read False readOnly cells0 (A ''true'') = Inl type_mismatch
 \<and> write_then_read False plainText cells0 (PL_STRING ''hello'') = Inl type_mismatch
 \<and> write_then_read False two_names cells0 (A ''None'') = Inr (A ''Off'')
 \<and> write_then_read False lineWrapMode cells0 (A ''QPlainTextEdit::WidgetWidth'')
     = Inr (A ''WidgetWidth'')
 \<and> write_then_read False maximumBlockCount cells0 (PL_INTEGER 2147483648)
     = Inl (PlTypeError ''integer'' (PL_INTEGER 2147483648))
 \<and> write_then_read False maximumWidth cells0 (PL_INTEGER (- 5)) = Inr (PL_INTEGER 0)"
proof -
  have 1: "write_then_read False readOnly cells0 (A ''true'') = Inl type_mismatch"
    by (simp add: write_then_read_def readOnly_def)
  have 2: "write_then_read False plainText cells0 (PL_STRING ''hello'') = Inl type_mismatch"
    by (simp add: write_then_read_def)
  have 3: "write_then_read False two_names cells0 (A ''None'') = Inr (A ''Off'')"
    by (simp add: write_then_read_def two_names_def cells0_def unify_atom_enum_def
        keyToValue_def split_scope_def valueToKey_def Q_ASSERT_not_flag_def stored_def)
  have 4: "write_then_read False lineWrapMode cells0 (A ''QPlainTextEdit::WidgetWidth'')
     = Inr (A ''WidgetWidth'')"
    by (simp add: write_then_read_def lineWrapMode_def cells0_def unify_atom_enum_def
        keyToValue_def split_scope_def valueToKey_def Q_ASSERT_not_flag_def stored_def)
  have 5: "write_then_read False maximumBlockCount cells0 (PL_INTEGER 2147483648)
     = Inl (PlTypeError ''integer'' (PL_INTEGER 2147483648))"
    by (simp add: write_then_read_def maximumBlockCount_def to_qint32_def fits_def)
  have 6: "write_then_read False maximumWidth cells0 (PL_INTEGER (- 5)) = Inr (PL_INTEGER 0)"
    by (simp add: write_then_read_def maximumWidth_def cells0_def to_qint32_def fits_def)
  from 1 2 3 4 5 6 show ?thesis by simp
qed

subsection \<open>C4: inserting a menu twice\<close>

text \<open>
  C4, amended. When the calling thread's console is framed by a main window, both calls of
  \<^verbatim>\<open>win_insert_menu(L, Before)\<close> succeed and the second leaves the menu bar as the first
  left it. After them the menu bar has exactly one menu labelled L when it had none before
  and Before is \<open>-\<close> or the text of an entry of the menu bar; it has none when it had none
  and Before is neither (the failure is only logged); and it has as many as before when it
  had some.
\<close>

theorem win_insert_menu_twice:
  assumes cb: "console_by_thread g thid = Some (c, ce)"
    and pm: "parent_QMainWindow g c = Some (mw, mbar)"
  shows "fst (win_insert_menu g thid L B) = TRUE []
       \<and> fst (win_insert_menu (snd (win_insert_menu g thid L B)) thid L B) = TRUE []
       \<and> parent_QMainWindow (snd (win_insert_menu (snd (win_insert_menu g thid L B)) thid L B)) c
           = parent_QMainWindow (snd (win_insert_menu g thid L B)) c
       \<and> menus_labelled L (snd (win_insert_menu (snd (win_insert_menu g thid L B)) thid L B)) c
           = (if 0 < menus_labelled L g c then menus_labelled L g c
              else if B = ''-'' \<or> B \<in> mtext ` set mbar then 1 else 0)"
proof (cases "insert_menu L B mbar")
  case None
  let ?g1 = "g\<lparr>qDebug := qDebug g @ [[''failed win_insert_menu'', L, B]]\<rparr>"
  have g1: "win_insert_menu g thid L B = (TRUE [], ?g1)"
    using cb pm None by (simp add: win_insert_menu_def exec_func_def win_insert_menu_closure_def)
  have g2: "win_insert_menu ?g1 thid L B
      = (TRUE [], ?g1\<lparr>qDebug := qDebug ?g1 @ [[''failed win_insert_menu'', L, B]]\<rparr>)"
    using cb pm None
    by (simp add: win_insert_menu_def exec_func_def win_insert_menu_closure_def after_qDebug)
  from None have "filter (\<lambda>ac. mtext ac = L) mbar = []"
    and "\<not> (B = ''-'' \<or> B \<in> mtext ` set mbar)"
    by (auto simp: insert_menu_None filter_empty_conv)
  then show ?thesis
    using pm by (simp add: g1 g2 menus_labelled_def after_qDebug)
next
  case (Some mbar1)
  let ?g1 = "set_menuBar mw mbar1 g"
  have g1: "win_insert_menu g thid L B = (TRUE [], ?g1)"
    using cb pm Some by (simp add: win_insert_menu_def exec_func_def win_insert_menu_closure_def)
  have cb1: "console_by_thread ?g1 thid = Some (c, ce)"
    by (rule after_set_menuBar[OF cb pm])
  have pm1: "parent_QMainWindow ?g1 c = Some (mw, mbar1)"
    by (rule parent_QMainWindow_set_menuBar[OF pm])
  have g2: "win_insert_menu ?g1 thid L B = (TRUE [], set_menuBar mw mbar1 ?g1)"
    using cb1 pm1 insert_menu_again[OF Some]
    by (simp add: win_insert_menu_def exec_func_def win_insert_menu_closure_def)
  have pm2: "parent_QMainWindow (set_menuBar mw mbar1 ?g1) c = Some (mw, mbar1)"
    by (rule parent_QMainWindow_set_menuBar[OF pm1])
  have some: "B = ''-'' \<or> B \<in> mtext ` set mbar \<or> 0 < length (filter (\<lambda>ac. mtext ac = L) mbar)"
    using Some insert_menu_None[of L B mbar]
    by (auto simp: filter_empty_conv)
  show ?thesis
    using some pm
    by (auto simp: g1 g2 pm1 pm2 menus_labelled_def insert_menu_count[OF Some])
qed

text \<open>In the demo, \<open>Tools\<close> appended, or inserted before \<open>File\<close>, is there once after two
  calls; \<open>File\<close>, which is there already, stays once.\<close>

theorem win_insert_menu_twice_witness:
  "menus_labelled ''Tools''
     (snd (win_insert_menu (snd (win_insert_menu demo_gui 1 ''Tools'' ''-'')) 1 ''Tools'' ''-'')) 3
     = 1
 \<and> menus_labelled ''Tools''
     (snd (win_insert_menu (snd (win_insert_menu demo_gui 1 ''Tools'' ''File'')) 1
        ''Tools'' ''File'')) 3 = 1
 \<and> menus_labelled ''File''
     (snd (win_insert_menu (snd (win_insert_menu demo_gui 1 ''File'' ''-'')) 1 ''File'' ''-'')) 3
     = 1"
proof -
  have before: "menus_labelled ''Tools'' demo_gui 3 = 0" "menus_labelled ''File'' demo_gui 3 = 1"
    by (simp_all add: menus_labelled_def demo_main_window)
  from win_insert_menu_twice[OF demo_by_thread demo_main_window, where L = "''Tools''"
      and B = "''-''"]
    win_insert_menu_twice[OF demo_by_thread demo_main_window, where L = "''Tools''"
      and B = "''File''"]
    win_insert_menu_twice[OF demo_by_thread demo_main_window, where L = "''File''"
      and B = "''-''"]
  show ?thesis by (simp add: before)
qed

text \<open>C4 as stated fails: the demo has no menu \<open>Edit\<close>, so \<open>Tools\<close> before \<open>Edit\<close> is not
  inserted, and after two calls no menu is labelled \<open>Tools\<close>, though both calls
  succeed.\<close>

theorem win_insert_menu_counterexample:
  "fst (win_insert_menu demo_gui 1 ''Tools'' ''Edit'') = TRUE []
 \<and> menus_labelled ''Tools''
     (snd (win_insert_menu (snd (win_insert_menu demo_gui 1 ''Tools'' ''Edit'')) 1
        ''Tools'' ''Edit'')) 3 = 0"
  by (simp add: win_insert_menu_def exec_func_def win_insert_menu_closure_def demo_by_thread
      demo_main_window after_qDebug insert_menu_def menus_labelled_def)

subsection \<open>C5: an item that exists already\<close>




subsection \<open>C6: flag-type enumerations\<close>

text \<open>
  C6. The code's own assertion \<^verbatim>\<open>Q_ASSERT(!p.isFlagType())\<close>, on the path that reads an
  enumeration and on the path that writes one with an atom, says that a flag-type
  enumeration is not to come through \<^verbatim>\<open>unify\<close>: in a build with assertions both paths
  end there, before anything is interpreted or assigned. The path that writes with an
  integer has no such guard: for a writable flag-type property and an integer that fits 32
  bits it hands the integer to the setter and succeeds, in any build. And in a build
  without assertions the guard is gone from the reading path as well: the read succeeds,
  with the name whose value is the whole bitmask, or else with the integer.
\<close>

theorem flag_type_property:
  assumes "ptype p = QVariant_Int" and "isEnumType p" and "isFlagType p"
  shows "unify False p ob PL_VARIABLE = (Inl (AssertFailure ''!p.isFlagType()''), ob)
       \<and> unify False p ob (A a) = (Inl (AssertFailure ''!p.isFlagType()''), ob)
       \<and> (isWritable p \<and> fits 32 n \<longrightarrow>
            unify nd p ob (PL_INTEGER n)
              = (Inr (PL_INTEGER n), ob\<lparr>ints := (ints ob)(pname p := set_int p ob n)\<rparr>))
       \<and> unify True p ob PL_VARIABLE
            = (Inr (case valueToKey (enumerator p) (ints ob (pname p)) of
                      Some key \<Rightarrow> A key
                    | None \<Rightarrow> PL_INTEGER (ints ob (pname p))), ob)"
  using assms
  by (auto simp: Q_ASSERT_not_flag_def unify_atom_enum_def to_qint32_def split: option.splits)

text \<open>The flag-type \<open>textInteractionFlags\<close> of the demo: read, and written with a name,
  the assertion stops both; written with the integer 3, the call succeeds and 3 is
  stored.\<close>

theorem flag_type_property_witness:
  "unify False textInteractionFlags cells0 PL_VARIABLE
     = (Inl (AssertFailure ''!p.isFlagType()''), cells0)
 \<and> unify False textInteractionFlags cells0 (A ''TextEditable'')
     = (Inl (AssertFailure ''!p.isFlagType()''), cells0)
 \<and> unify False textInteractionFlags cells0 (PL_INTEGER 3)
     = (Inr (PL_INTEGER 3), cells0\<lparr>ints := (ints cells0)(''textInteractionFlags'' := 3)\<rparr>)
 \<and> unify True textInteractionFlags cells0 PL_VARIABLE = (Inr (A ''NoTextInteraction''), cells0)"
proof -
  have f: "ptype textInteractionFlags = QVariant_Int" "isEnumType textInteractionFlags"
    "isFlagType textInteractionFlags"
    by (simp_all add: textInteractionFlags_def)
  from flag_type_property[OF f, where ob = cells0 and a = "''TextEditable''" and n = 3
      and nd = False]
  show ?thesis
    by (simp add: textInteractionFlags_def cells0_def valueToKey_def fits_def stored_def)
qed

text \<open>C6 as stated fails: with assertions on, \<^verbatim>\<open>console_settings\<close> writes the integer 3
  to the flag-type \<open>textInteractionFlags\<close> of the demo and succeeds; with assertions off,
  the bitmask 3 (two flags) is read back as the integer 3 and the single flag 16 as its
  name, without a failure.\<close>

theorem flag_type_counterexample:
  "isFlagType textInteractionFlags
 \<and> fst (console_settings False demo_gui 1 [PL_TERM ''textInteractionFlags'' [PL_INTEGER 3]])
     = TRUE [PL_INTEGER 3]
 \<and> unify False textInteractionFlags cells0 (PL_INTEGER 3)
     = (Inr (PL_INTEGER 3), cells0\<lparr>ints := (ints cells0)(''textInteractionFlags'' := 3)\<rparr>)
 \<and> fst (unify True textInteractionFlags
           (cells0\<lparr>ints := (ints cells0)(''textInteractionFlags'' := 3)\<rparr>) PL_VARIABLE)
     = Inr (PL_INTEGER 3)
 \<and> fst (unify True textInteractionFlags
           (cells0\<lparr>ints := (ints cells0)(''textInteractionFlags'' := 16)\<rparr>) PL_VARIABLE)
     = Inr (A ''TextEditable'')"
proof -
  have u: "unify False textInteractionFlags cells0 (PL_INTEGER 3)
     = (Inr (PL_INTEGER 3), cells0\<lparr>ints := (ints cells0)(''textInteractionFlags'' := 3)\<rparr>)"
    by (simp add: textInteractionFlags_def to_qint32_def fits_def stored_def)
  have i: "indexOfProperty (metaObject demo_console) ''textInteractionFlags''
             = Some textInteractionFlags"
    by (simp add: demo_console_def indexOfProperty_def readOnly_def maximumBlockCount_def
        maximumWidth_def plainText_def lineWrapMode_def textInteractionFlags_def)
  have c: "cells demo_console = cells0" by (simp add: demo_console_def)
  have "console_settings_loop False demo_console
          [PL_TERM ''textInteractionFlags'' [PL_INTEGER 3]]
        = (Inr [PL_INTEGER 3],
           demo_console\<lparr>cells := cells0\<lparr>ints := (ints cells0)(''textInteractionFlags'' := 3)\<rparr>\<rparr>)"
    by (simp only: console_settings_step i c u option.case) simp
  then have s: "fst (console_settings False demo_gui 1
                  [PL_TERM ''textInteractionFlags'' [PL_INTEGER 3]]) = TRUE [PL_INTEGER 3]"
    by (simp add: console_settings_def demo_by_thread)
  have r: "fst (unify True textInteractionFlags
           (cells0\<lparr>ints := (ints cells0)(''textInteractionFlags'' := 3)\<rparr>) PL_VARIABLE)
     = Inr (PL_INTEGER 3)"
    "fst (unify True textInteractionFlags
           (cells0\<lparr>ints := (ints cells0)(''textInteractionFlags'' := 16)\<rparr>) PL_VARIABLE)
     = Inr (A ''TextEditable'')"
    by (simp_all add: textInteractionFlags_def Q_ASSERT_not_flag_def valueToKey_def)
  from u s r show ?thesis by (simp add: textInteractionFlags_def)
qed

subsection \<open>C7: known and unknown options of \<^verbatim>\<open>win_window_pos\<close>\<close>

text \<open>
  C7, amended. If the list has an option that is not one of \<open>size/2\<close>, \<open>position/2\<close>,
  \<open>zorder/1\<close>, \<open>show/1\<close>, \<open>activate/0\<close>, the call does not succeed. When the calling thread's
  console is found and has a parent widget: the call answers \<^verbatim>\<open>FALSE\<close> if the list has such
  an option and every option is an atom or a compound whose arguments convert; and the
  call succeeds if every option is a known one and its arguments convert (integers for
  \<open>size\<close> and \<open>position\<close>, an atom or a compound for \<open>show\<close>).
\<close>

theorem window_pos_options:
  "((\<exists>opt\<in>set options. \<not> known_option opt) \<longrightarrow>
      fst (win_window_pos g thid options) \<noteq> TRUE [])
 \<and> (console_by_thread g thid = Some (c, ce) \<and> parentWidget (objects g c) = Some w \<longrightarrow>
      ((\<exists>opt\<in>set options. \<not> known_option opt) \<and>
       (\<forall>opt\<in>set options. name_arity opt \<noteq> None \<and> args_convert opt) \<longrightarrow>
         fst (win_window_pos g thid options) = FALSE)
    \<and> ((\<forall>opt\<in>set options. known_option opt \<and> args_convert opt) \<longrightarrow>
         fst (win_window_pos g thid options) = TRUE []))"
proof (intro conjI impI)
  assume u: "\<exists>opt\<in>set options. \<not> known_option opt"
  show "fst (win_window_pos g thid options) \<noteq> TRUE []"
    by (auto simp: win_window_pos_def loop_unknown[OF u]
        split: option.splits prod.splits sum.splits)
next
  assume cw: "console_by_thread g thid = Some (c, ce) \<and> parentWidget (objects g c) = Some w"
    and "(\<exists>opt\<in>set options. \<not> known_option opt) \<and>
       (\<forall>opt\<in>set options. name_arity opt \<noteq> None \<and> args_convert opt)"
  then have "fst (win_window_pos_loop ce (objects g w) options) = Inr False"
    using loop_unknown_FALSE by blast
  with cw show "fst (win_window_pos g thid options) = FALSE"
    by (auto simp: win_window_pos_def split: prod.splits sum.splits)
next
  assume cw: "console_by_thread g thid = Some (c, ce) \<and> parentWidget (objects g c) = Some w"
    and "\<forall>opt\<in>set options. known_option opt \<and> args_convert opt"
  then obtain w' where "win_window_pos_loop ce (objects g w) options = (Inr True, w')"
    using loop_all_known by blast
  with cw show "fst (win_window_pos g thid options) = TRUE []"
    by (simp add: win_window_pos_def)
qed

text \<open>In the demo: the five known options together succeed; with \<open>bogus(1)\<close> among
  well-formed options the call answers \<^verbatim>\<open>FALSE\<close>; with the integer 5 as an option it does not
  succeed.\<close>

theorem window_pos_options_witness:
  "fst (win_window_pos demo_gui 1
         [PL_TERM ''size'' [PL_INTEGER 80, PL_INTEGER 25],
          PL_TERM ''position'' [PL_INTEGER 10, PL_INTEGER 20],
          PL_TERM ''zorder'' [A ''top''], PL_TERM ''show'' [A ''true''], A ''activate''])
     = TRUE []
 \<and> fst (win_window_pos demo_gui 1
         [A ''activate'', PL_TERM ''bogus'' [PL_INTEGER 1], PL_TERM ''show'' [A ''true'']])
     = FALSE
 \<and> fst (win_window_pos demo_gui 1 [A ''activate'', PL_INTEGER 5]) \<noteq> TRUE []"
proof -
  let ?all = "[PL_TERM ''size'' [PL_INTEGER 80, PL_INTEGER 25],
          PL_TERM ''position'' [PL_INTEGER 10, PL_INTEGER 20],
          PL_TERM ''zorder'' [A ''top''], PL_TERM ''show'' [A ''true''], A ''activate'']"
  let ?bogus = "[A ''activate'', PL_TERM ''bogus'' [PL_INTEGER 1], PL_TERM ''show'' [A ''true'']]"
  let ?five = "[A ''activate'', PL_INTEGER 5]"
  have k: "\<forall>opt\<in>set ?all. known_option opt \<and> args_convert opt"
    by (simp add: known_option_def fits_def)
  have b: "(\<exists>opt\<in>set ?bogus. \<not> known_option opt) \<and>
       (\<forall>opt\<in>set ?bogus. name_arity opt \<noteq> None \<and> args_convert opt)"
    by (simp add: known_option_def)
  have f: "\<exists>opt\<in>set ?five. \<not> known_option opt"
    by (simp add: known_option_def)
  from window_pos_options[where options = ?all and g = demo_gui and thid = 1 and c = 3
      and ce = demo_console and w = 2]
    window_pos_options[where options = ?bogus and g = demo_gui and thid = 1 and c = 3
      and ce = demo_console and w = 2]
    window_pos_options[where options = ?five and g = demo_gui and thid = 1]
    k b f demo_by_thread demo_parent
  show ?thesis by blast
qed

text \<open>C7 as stated fails: \<open>size(a, b)\<close> is a known option by name and arity, and the call
  raises a type error instead of succeeding; \<open>activate\<close> is a known option, and the call
  fails for a console that has no parent widget.\<close>

theorem window_pos_options_counterexample:
  "known_option (PL_TERM ''size'' [A ''a'', A ''b''])
 \<and> fst (win_window_pos demo_gui 1 [PL_TERM ''size'' [A ''a'', A ''b'']])
     = Inl (PlTypeError ''integer'' (A ''a''))
 \<and> known_option (A ''activate'')
 \<and> console_by_thread unframed_gui 1 = Some (3, demo_console)
 \<and> fst (win_window_pos unframed_gui 1 [A ''activate'']) = FALSE"
  by (simp add: known_option_def win_window_pos_def demo_by_thread demo_parent
      unframed_by_thread window_pos_option_def arity_def name_def two_longs_def long_arg_def
      to_long_def)
     (simp add: unframed_gui_def)

subsection \<open>C8: the size of the terminal\<close>

text \<open>
  C8. For a console whose font cell has a positive height and width, \<^verbatim>\<open>tty_size\<close> succeeds
  with Rows and Cols such that Rows times the cell height is at most the widget's pixel
  height, which is less than (Rows + 1) times the cell height, and the same for Cols and
  the widths: Rows and Cols are the integer quotients.
\<close>

theorem tty_size_cells:
  assumes "console_by_thread g thid = Some (c, ce)"
    and "0 < cell_height (font ce)" and "0 < cell_width (font ce)"
  shows "\<exists>Rows Cols.
           tty_size g thid = (TRUE [PL_INTEGER Rows, PL_INTEGER Cols], g)
         \<and> Rows * int (cell_height (font ce)) \<le> int (height (objects g c))
         \<and> int (height (objects g c)) < (Rows + 1) * int (cell_height (font ce))
         \<and> Cols * int (cell_width (font ce)) \<le> int (width (objects g c))
         \<and> int (width (objects g c)) < (Cols + 1) * int (cell_width (font ce))"
proof -
  let ?H = "height (objects g c)" and ?h = "cell_height (font ce)"
  let ?W = "width (objects g c)" and ?w = "cell_width (font ce)"
  have rows: "(?H div ?h) * ?h \<le> ?H \<and> ?H < (?H div ?h + 1) * ?h"
    using assms(2) by (simp add: dividend_less_div_times)
  have cols: "(?W div ?w) * ?w \<le> ?W \<and> ?W < (?W div ?w + 1) * ?w"
    using assms(3) by (simp add: dividend_less_div_times)
  have run: "tty_size g thid
      = (TRUE [PL_INTEGER (int (?H div ?h)), PL_INTEGER (int (?W div ?w))], g)"
    using assms by (simp add: tty_size_def int_div_def)
  have r: "int (?H div ?h) * int ?h \<le> int ?H \<and> int ?H < (int (?H div ?h) + 1) * int ?h"
    using rows by (metis of_nat_mult of_nat_le_iff of_nat_less_iff of_nat_add of_nat_1)
  have cc: "int (?W div ?w) * int ?w \<le> int ?W \<and> int ?W < (int (?W div ?w) + 1) * int ?w"
    using cols by (metis of_nat_mult of_nat_le_iff of_nat_less_iff of_nat_add of_nat_1)
  from run r cc show ?thesis by blast
qed

text \<open>The console of the demo is 800 by 570 pixels, its font cell 8 by 16: 35 rows, 100
  columns.\<close>

theorem tty_size_cells_witness:
  "tty_size demo_gui 1 = (TRUE [PL_INTEGER 35, PL_INTEGER 100], demo_gui)
 \<and> 35 * 16 \<le> int (height (objects demo_gui 3))
 \<and> int (height (objects demo_gui 3)) < 36 * 16"
proof -
  have f: "0 < cell_height (font demo_console)" "0 < cell_width (font demo_console)"
    by (simp_all add: demo_console_def monospace_def)
  from tty_size_cells[OF demo_by_thread f] obtain Rows Cols where
    t: "tty_size demo_gui 1 = (TRUE [PL_INTEGER Rows, PL_INTEGER Cols], demo_gui)"
    and r: "Rows * int (cell_height (font demo_console)) \<le> int (height (objects demo_gui 3))"
      "int (height (objects demo_gui 3)) < (Rows + 1) * int (cell_height (font demo_console))"
    and c: "Cols * int (cell_width (font demo_console)) \<le> int (width (objects demo_gui 3))"
      "int (width (objects demo_gui 3)) < (Cols + 1) * int (cell_width (font demo_console))"
    by blast
  from r have "Rows = 35"
    by (simp add: demo_console_def monospace_def demo_gui_def)
  moreover from c have "Cols = 100"
    by (simp add: demo_console_def monospace_def demo_gui_def)
  ultimately show ?thesis using t by (simp add: demo_gui_def)
qed

subsection \<open>C10: \<^verbatim>\<open>win_window_pos\<close> is not atomic\<close>

text \<open>
  C10, amended. \<^verbatim>\<open>win_window_pos\<close> applies its options from left to right: when the call
  on a list succeeds, the call on the list followed by more options is the call on those
  in the state the first call leaves. So when the options before the first unknown option
  are applied with success (the console is found and has a parent widget, their arguments
  convert), the call answers \<^verbatim>\<open>FALSE\<close> at the unknown option when that is an atom or a
  compound, and raises a type error at it otherwise; either way it leaves the window as
  the options before it have made it: nothing is rolled back.
\<close>

theorem window_pos_not_atomic:
  assumes "win_window_pos g thid pre = (TRUE [], g')"
  shows "win_window_pos g thid (pre @ later) = win_window_pos g' thid later
       \<and> (name_arity bad \<noteq> None \<and> \<not> known_option bad \<longrightarrow>
            win_window_pos g thid (pre @ bad # rest) = (FALSE, g'))
       \<and> (name_arity bad = None \<longrightarrow>
            win_window_pos g thid (pre @ bad # rest) = (Inl (PlTypeError ''compound'' bad), g'))"
proof (intro conjI)
  show "win_window_pos g thid (pre @ later) = win_window_pos g' thid later"
    by (rule win_window_pos_sequence[OF assms])
  show "name_arity bad \<noteq> None \<and> \<not> known_option bad \<longrightarrow>
            win_window_pos g thid (pre @ bad # rest) = (FALSE, g')"
    using assms
    by (auto simp: win_window_pos_def loop_append option_unknown
        split: option.splits prod.splits sum.splits bool.splits)
  show "name_arity bad = None \<longrightarrow>
            win_window_pos g thid (pre @ bad # rest) = (Inl (PlTypeError ''compound'' bad), g')"
  proof
    assume n: "name_arity bad = None"
    then have "\<not> known_option bad"
      by (simp add: known_option_def)
    from option_unknown[OF this] n
    have step: "window_pos_option c w bad = (Inl (PlTypeError ''compound'' bad), w)" for c w
      by simp
    from assms
    show "win_window_pos g thid (pre @ bad # rest) = (Inl (PlTypeError ''compound'' bad), g')"
      by (auto simp: win_window_pos_def loop_append step
          split: option.splits prod.splits sum.splits bool.splits)
  qed
qed

text \<open>In the demo, \<open>show(true)\<close> and \<open>activate\<close> before the unknown \<open>bogus(1)\<close> have been
  applied to the window when the call fails; \<open>size(80, 25)\<close> after it has not.\<close>

theorem window_pos_not_atomic_witness:
  "fst (win_window_pos demo_gui 1
         [PL_TERM ''show'' [A ''true''], A ''activate'', PL_TERM ''bogus'' [PL_INTEGER 1],
          PL_TERM ''size'' [PL_INTEGER 80, PL_INTEGER 25]]) = FALSE
 \<and> calls (objects (snd (win_window_pos demo_gui 1
         [PL_TERM ''show'' [A ''true''], A ''activate'', PL_TERM ''bogus'' [PL_INTEGER 1],
          PL_TERM ''size'' [PL_INTEGER 80, PL_INTEGER 25]])) 2) = [Show, ActivateWindow]"
proof -
  let ?g' = "demo_gui\<lparr>objects := (objects demo_gui)
               (2 := (objects demo_gui 2)\<lparr>calls := [Show, ActivateWindow]\<rparr>)\<rparr>"
  have pre: "win_window_pos demo_gui 1 [PL_TERM ''show'' [A ''true''], A ''activate'']
               = (TRUE [], ?g')"
    by (simp add: win_window_pos_def demo_by_thread demo_parent window_pos_option_def
        arity_def name_def call_def)
       (simp add: demo_gui_def)
  have bad: "name_arity (PL_TERM ''bogus'' [PL_INTEGER 1]) \<noteq> None
             \<and> \<not> known_option (PL_TERM ''bogus'' [PL_INTEGER 1])"
    by (simp add: known_option_def)
  from window_pos_not_atomic[OF pre, where bad = "PL_TERM ''bogus'' [PL_INTEGER 1]"
      and rest = "[PL_TERM ''size'' [PL_INTEGER 80, PL_INTEGER 25]]",
      THEN conjunct2, THEN conjunct1] bad
  show ?thesis by simp
qed

text \<open>C10 as stated fails: in \<open>[size(a, b), activate, bogus]\<close> the first unknown option is
  the third, and the known option \<open>activate\<close> before it has not been applied when the call
  ends, because \<open>size(a, b)\<close> raises a type error first. And for a console that has no
  parent widget the call on \<open>[activate, bogus]\<close> fails with nothing applied: the state is
  as before.\<close>

theorem window_pos_not_atomic_counterexample:
  "known_option (PL_TERM ''size'' [A ''a'', A ''b'']) \<and> known_option (A ''activate'')
 \<and> \<not> known_option (A ''bogus'')
 \<and> fst (win_window_pos demo_gui 1
          [PL_TERM ''size'' [A ''a'', A ''b''], A ''activate'', A ''bogus''])
     = Inl (PlTypeError ''integer'' (A ''a''))
 \<and> calls (objects (snd (win_window_pos demo_gui 1
          [PL_TERM ''size'' [A ''a'', A ''b''], A ''activate'', A ''bogus''])) 2) = []
 \<and> win_window_pos unframed_gui 1 [A ''activate'', A ''bogus''] = (FALSE, unframed_gui)"
  by (simp add: known_option_def win_window_pos_def demo_by_thread demo_parent
      unframed_by_thread window_pos_option_def arity_def name_def two_longs_def long_arg_def
      to_long_def)
     (simp add: demo_gui_def unframed_gui_def)

end
